theory Spec2Isabelle
  imports Complex_Main
begin

section \<open>CSP plastic-pyrolysis plant: the simulation engine of App.jsx\<close>

text \<open>
  The engine is the body of the component \<^verbatim>\<open>CSPPyrolysisSimulation\<close>: three catalogs,
  the solar model, the thermal-power and pyrolysis formulas, the weather process, the
  interval callback that advances the simulation by one tick, and the RESET handler.

  Conventions of the embedding.
  \<^item> A JavaScript number that holds a physical quantity is a \<open>real\<close>: the model is the
    exact-arithmetic reading of the formulas, IEEE rounding is not modelled.
  \<^item> The tick counter, the clock's hour and minute and the speed multiplier start as
    integers and are only changed by \<^verbatim>\<open>+\<close>, \<^verbatim>\<open>Math.floor(x / 60)\<close> and \<^verbatim>\<open>%\<close> on
    non-negative integers, so they are \<open>nat\<close>. The heliostat counts \<^verbatim>\<open>operational\<close>,
    \<^verbatim>\<open>faulty\<close> and \<^verbatim>\<open>maintenance\<close> are \<open>int\<close> (the code subtracts 1 with no floor);
    \<^verbatim>\<open>cleaning_needed\<close> is a \<open>real\<close>, since its cap \<^verbatim>\<open>prev.operational * 0.1\<close> is
    fractional.
  \<^item> Every \<^verbatim>\<open>Math.random()\<close> call of a tick is a field of the record \<open>draws\<close>, passed in.
  \<^item> A React state variable is a field of \<open>sim_state\<close>. The interval callback reads the
    values of the render it closes over and queues its updates; the effect is re-created
    after every render (its dependency list holds \<^verbatim>\<open>time\<close>, which every tick changes), so
    each tick reads the state the previous tick produced. Queued updates of one variable
    are applied in order, a functional update receiving the result of the one before it.
  \<^item> Reading a property of \<^verbatim>\<open>undefined\<close> raises; the tick then returns \<open>Inl TypeError\<close>.
  \<^item> A tick that returns normally but stores \<^verbatim>\<open>NaN\<close> or a string in a state variable has
    no successor in \<open>sim_state\<close>, whose fields are numbers: the tick returns
    \<open>Inl NotANumber\<close> and the model follows the simulation no further.
\<close>

subsection \<open>Property lookup on an object literal\<close>

text \<open>The three catalogs are object literals, read with \<^verbatim>\<open>CATALOG[key]\<close>. The lookup finds
  the key among the entries of the literal, or else among the properties every object
  literal inherits from \<^verbatim>\<open>Object.prototype\<close>, or not at all, and is then \<^verbatim>\<open>undefined\<close>. The
  inherited values are functions, except \<^verbatim>\<open>__proto__\<close>, which is the prototype object: each
  is truthy, is not a number, and has none of the fields \<^verbatim>\<open>dni\<close>, \<^verbatim>\<open>lat\<close>, \<^verbatim>\<open>optimal_temp\<close>,
  \<^verbatim>\<open>description\<close> the program reads.\<close>

datatype 'a js_property = Own 'a | Inherited | Undefined

definition objectPrototypeKeys :: "string list" where
  "objectPrototypeKeys =
    [''constructor'', ''__defineGetter__'', ''__defineSetter__'', ''hasOwnProperty'',
     ''__lookupGetter__'', ''__lookupSetter__'', ''isPrototypeOf'', ''propertyIsEnumerable'',
     ''toString'', ''valueOf'', ''__proto__'', ''toLocaleString'']"

definition js_get :: "(string \<times> 'a) list \<Rightarrow> string \<Rightarrow> 'a js_property" where
  "js_get entries k =
    (case map_of entries k of
       Some v \<Rightarrow> Own v
     | None \<Rightarrow> if k \<in> set objectPrototypeKeys then Inherited else Undefined)"

subsection \<open>Catalogs and constants\<close>

record location =
  loc_dni :: real
  lat :: real
  lon :: real
  tz :: real

definition SOLAR_DATA_entries :: "(string \<times> location) list" where
  "SOLAR_DATA_entries =
    [(''Riyadh, Saudi Arabia'', \<lparr>loc_dni = 6.8, lat = 24.7, lon = 46.7, tz = 3\<rparr>),
     (''Phoenix, USA'', \<lparr>loc_dni = 7.2, lat = 33.4, lon = -112.1, tz = -7\<rparr>),
     (''Seville, Spain'', \<lparr>loc_dni = 5.9, lat = 37.4, lon = -5.9, tz = 1\<rparr>),
     (''Dubai, UAE'', \<lparr>loc_dni = 6.5, lat = 25.3, lon = 55.3, tz = 4\<rparr>),
     (''Las Vegas, USA'', \<lparr>loc_dni = 7.5, lat = 36.2, lon = -115.1, tz = -8\<rparr>),
     (''Alice Springs, Australia'', \<lparr>loc_dni = 7.3, lat = -23.7, lon = 133.9, tz = 9.5\<rparr>),
     (''Almeria, Spain'', \<lparr>loc_dni = 6.4, lat = 36.8, lon = -2.4, tz = 1\<rparr>),
     (''Cairo, Egypt'', \<lparr>loc_dni = 6.2, lat = 30.0, lon = 31.2, tz = 2\<rparr>),
     (''Atacama, Chile'', \<lparr>loc_dni = 8.5, lat = -23.6, lon = -70.4, tz = -4\<rparr>),
     (''Ouarzazate, Morocco'', \<lparr>loc_dni = 6.7, lat = 30.9, lon = -6.9, tz = 0\<rparr>),
     (''Tucson, USA'', \<lparr>loc_dni = 7.0, lat = 32.2, lon = -110.9, tz = -7\<rparr>),
     (''Jodhpur, India'', \<lparr>loc_dni = 6.3, lat = 26.3, lon = 73.0, tz = 5.5\<rparr>)]"

definition SOLAR_DATA :: "string \<Rightarrow> location js_property" where
  "SOLAR_DATA = js_get SOLAR_DATA_entries"

text \<open>The fields \<^verbatim>\<open>name\<close>, \<^verbatim>\<open>color\<close> and \<^verbatim>\<open>description\<close> of a plastic type are only
  displayed; the engine reads the five numbers.\<close>

record plastic =
  h2_yield :: real
  carbon_yield :: real
  oil_yield :: real
  gas_yield :: real
  optimal_temp :: real

definition PLASTIC_TYPES_entries :: "(string \<times> plastic) list" where
  "PLASTIC_TYPES_entries =
    [(''HDPE'', \<lparr>h2_yield = 168, carbon_yield = 0.25, oil_yield = 0.15, gas_yield = 0.10,
                optimal_temp = 850\<rparr>),
     (''LDPE'', \<lparr>h2_yield = 175, carbon_yield = 0.22, oil_yield = 0.18, gas_yield = 0.12,
                optimal_temp = 850\<rparr>),
     (''PP'', \<lparr>h2_yield = 165, carbon_yield = 0.26, oil_yield = 0.16, gas_yield = 0.11,
              optimal_temp = 850\<rparr>),
     (''PS'', \<lparr>h2_yield = 95, carbon_yield = 0.48, oil_yield = 0.20, gas_yield = 0.08,
              optimal_temp = 900\<rparr>),
     (''Mixed'', \<lparr>h2_yield = 150, carbon_yield = 0.30, oil_yield = 0.17, gas_yield = 0.10,
                 optimal_temp = 850\<rparr>)]"

definition PLASTIC_TYPES :: "string \<Rightarrow> plastic js_property" where
  "PLASTIC_TYPES = js_get PLASTIC_TYPES_entries"

definition SPEED_OPTIONS_entries :: "(string \<times> nat) list" where
  "SPEED_OPTIONS_entries =
    [(''Real-time (1 day = 24 hours)'', 1),
     (''Fast (1 day = 2 hours)'', 12),
     (''Very Fast (1 day = 30 min)'', 48),
     (''Ultra Fast (1 day = 20 min)'', 72),
     (''Extreme (1 day = 10 min)'', 144)]"

definition SPEED_OPTIONS :: "string \<Rightarrow> nat js_property" where
  "SPEED_OPTIONS = js_get SPEED_OPTIONS_entries"

definition HELIOSTAT_AREA :: real where "HELIOSTAT_AREA = 115"
definition HELIOSTAT_EFFICIENCY :: real where "HELIOSTAT_EFFICIENCY = 0.68"
definition RECEIVER_EFFICIENCY :: real where "RECEIVER_EFFICIENCY = 0.88"
definition SALT_TEMP_HOT :: real where "SALT_TEMP_HOT = 565"
definition SALT_TEMP_COLD :: real where "SALT_TEMP_COLD = 290"
definition HEAT_LOSS_PER_HOUR :: real where "HEAT_LOSS_PER_HOUR = 0.02"
definition PYROLYSIS_ENERGY :: real where "PYROLYSIS_ENERGY = 450"
definition HELIOSTAT_COUNT :: int where "HELIOSTAT_COUNT = 2127"
definition REACTOR_CAPACITY :: real where "REACTOR_CAPACITY = 500"

subsection \<open>State\<close>

record config =
  selectedLocation :: string
  selectedPlastic :: string
  selectedSpeed :: string

record heliostat_field =
  operational :: int
  maintenance :: int
  cleaning_needed :: real
  faulty :: int

record production_totals =
  hydrogen :: real
  carbon :: real
  wax :: real
  waste :: real
  totalPlasticProcessed :: real

record daily_stats =
  energyCollected :: real
  plasticProcessed :: real
  hydrogenProduced :: real
  carbonProduced :: real
  heatLoss :: real

text \<open>\<open>currentDate\<close> is the JavaScript \<^verbatim>\<open>Date\<close> held by the component, read in a time
  zone without daylight saving: the number of whole days since \<^verbatim>\<open>new Date(2026, 0, 0)\<close>
  (31 December 2025), so that the initial \<^verbatim>\<open>new Date(2026, 0, 15)\<close> is 15 and adding
  86400000 ms adds 1.\<close>

record sim_state =
  time :: nat
  isRunning :: bool
  currentHour :: nat
  currentMinute :: nat
  currentDate :: nat
  cloudCover :: real
  windSpeed :: real
  heliostats :: heliostat_field
  reactorTemp :: real
  saltHotTemp :: real
  saltColdTemp :: real
  pyrolysisActive :: bool
  production :: production_totals
  dailyStats :: daily_stats

definition zeroProduction :: production_totals where
  "zeroProduction =
     \<lparr>hydrogen = 0, carbon = 0, wax = 0, waste = 0, totalPlasticProcessed = 0\<rparr>"

definition zeroDailyStats :: daily_stats where
  "zeroDailyStats =
     \<lparr>energyCollected = 0, plasticProcessed = 0, hydrogenProduced = 0, carbonProduced = 0,
      heatLoss = 0\<rparr>"

definition initial_config :: config where
  "initial_config =
     \<lparr>selectedLocation = ''Riyadh, Saudi Arabia'', selectedPlastic = ''HDPE'',
      selectedSpeed = ''Ultra Fast (1 day = 20 min)''\<rparr>"

definition initial_state :: sim_state where
  "initial_state =
     \<lparr>time = 0, isRunning = False, currentHour = 6, currentMinute = 0, currentDate = 15,
      cloudCover = 0, windSpeed = 0,
      heliostats = \<lparr>operational = HELIOSTAT_COUNT, maintenance = 0, cleaning_needed = 0,
                     faulty = 0\<rparr>,
      reactorTemp = 290, saltHotTemp = 420, saltColdTemp = 290, pyrolysisActive = False,
      production = zeroProduction, dailyStats = zeroDailyStats\<rparr>"

definition locationData :: "config \<Rightarrow> location js_property" where
  "locationData cfg = SOLAR_DATA (selectedLocation cfg)"

definition plasticData :: "config \<Rightarrow> plastic js_property" where
  "plasticData cfg = PLASTIC_TYPES (selectedPlastic cfg)"

subsection \<open>Solar model\<close>

text \<open>\<^verbatim>\<open>x || d\<close> on numbers: \<^verbatim>\<open>d\<close> when \<^verbatim>\<open>x\<close> is 0 (or \<^verbatim>\<open>undefined\<close>), else \<^verbatim>\<open>x\<close>.\<close>

definition js_or :: "real \<Rightarrow> real \<Rightarrow> real" where
  "js_or x d = (if x = 0 then d else x)"

text \<open>\<^verbatim>\<open>locationData?.lat || 0\<close> and \<^verbatim>\<open>locationData?.dni || 6.0\<close>: an inherited value has no
  such field, the read is \<^verbatim>\<open>undefined\<close> and the fallback applies, as it does when
  \<^verbatim>\<open>locationData\<close> itself is \<^verbatim>\<open>undefined\<close>.\<close>

definition lat_or_0 :: "location js_property \<Rightarrow> real" where
  "lat_or_0 l = (case l of Own d \<Rightarrow> js_or (lat d) 0 | Inherited \<Rightarrow> 0 | Undefined \<Rightarrow> 0)"

definition dni_or_6 :: "location js_property \<Rightarrow> real" where
  "dni_or_6 l =
    (case l of Own d \<Rightarrow> js_or (loc_dni d) 6.0 | Inherited \<Rightarrow> 6.0 | Undefined \<Rightarrow> 6.0)"

text \<open>The night branch returns an object without \<^verbatim>\<open>sunrise\<close> and \<^verbatim>\<open>sunset\<close>.\<close>

record sun_parameters =
  elevation :: real
  dni :: real
  isDaytime :: bool
  sunrise :: "real option"
  sunset :: "real option"

text \<open>\<^verbatim>\<open>calculateSunParameters(hour, minute, dayOfYear)\<close>; the location record and the
  cloud cover, which the source reads from the enclosing render, are parameters.
  The division by \<^verbatim>\<open>dayLength\<close> is by a number that is at least 9 whenever the latitude
  is at most 90 degrees in magnitude.\<close>

definition calculateSunParameters ::
  "location js_property \<Rightarrow> real \<Rightarrow> real \<Rightarrow> real \<Rightarrow> real \<Rightarrow> sun_parameters" where
  "calculateSunParameters l cloud hour minute dayOfYear =
    (let hourDecimal = js_or hour 0 + js_or minute 0 / 60;
         seasonalOffset = sin ((js_or dayOfYear 1 - 81) / 365 * 2 * pi) * 1.5;
         latitudeFactor = \<bar>lat_or_0 l\<bar> / 90;
         sunriseH = 6 - seasonalOffset * latitudeFactor;
         sunsetH = 18 + seasonalOffset * latitudeFactor
     in if hourDecimal < sunriseH \<or> hourDecimal > sunsetH
        then \<lparr>elevation = 0, dni = 0, isDaytime = False, sunrise = None, sunset = None\<rparr>
        else
          (let dayLength = sunsetH - sunriseH;
               normalizedHour = (hourDecimal - sunriseH) / dayLength;
               baseElevation = sin (normalizedHour * pi) * 70;
               latitudeCorrection = 1 - (\<bar>lat_or_0 l\<bar> / 90) * 0.3;
               elev = baseElevation * latitudeCorrection;
               baseDNI = dni_or_6 l * 1000 / 8;
               timeOfDayFactor = sin (normalizedHour * pi);
               seasonalFactor = 1 + sin ((dayOfYear - 81) / 365 * 2 * pi) * 0.3;
               cloudFactor = 1 - (cloud / 100) * 0.7;
               d = baseDNI * timeOfDayFactor * seasonalFactor * cloudFactor * 1.4
           in \<lparr>elevation = elev, dni = max 0 d, isDaytime = True,
               sunrise = Some sunriseH, sunset = Some sunsetH\<rparr>))"

subsection \<open>Thermal power and pyrolysis\<close>

definition calculateThermalPower :: "heliostat_field \<Rightarrow> real \<Rightarrow> real \<Rightarrow> real" where
  "calculateThermalPower h wind d =
    (let activeHeliostats = real_of_int (operational h);
         windEffect = (if wind > 10 then 0.95 else 1.0);
         totalArea = activeHeliostats * HELIOSTAT_AREA;
         opticalPower = totalArea * d * HELIOSTAT_EFFICIENCY * windEffect;
         thermalPower = opticalPower * RECEIVER_EFFICIENCY
     in thermalPower / 1000000)"

record products =
  plastic_kg :: real
  h2_kg :: real
  carbon_kg :: real
  wax_kg :: real
  waste_kg :: real
  rate :: real

definition processPyrolysis :: "plastic \<Rightarrow> real \<Rightarrow> real \<Rightarrow> products" where
  "processPyrolysis pd thermalPowerMW deltaTime =
    (let requiredPowerPerKg = PYROLYSIS_ENERGY / 3600;
         maxPlasticRate = (thermalPowerMW * 1000) / requiredPowerPerKg;
         actualRate = min maxPlasticRate REACTOR_CAPACITY;
         plasticProcessed = actualRate * (deltaTime / 3600);
         h2_mmol = plasticProcessed * 1000 * h2_yield pd
     in \<lparr>plastic_kg = plasticProcessed,
         h2_kg = (h2_mmol * 2.016) / 1000000,
         carbon_kg = plasticProcessed * carbon_yield pd,
         wax_kg = plasticProcessed * oil_yield pd,
         waste_kg = plasticProcessed * gas_yield pd,
         rate = actualRate\<rparr>)"

subsection \<open>Weather process\<close>

text \<open>The values \<^verbatim>\<open>Math.random()\<close> returns during one tick, each in the interval from 0
  (included) to 1 (excluded): the two event tests and the two amounts of
  \<^verbatim>\<open>updateWeather\<close>, and the two event tests of the heliostat field.\<close>

record draws =
  cloudEvent :: real
  cloudAmount :: real
  windEvent :: real
  windAmount :: real
  faultEvent :: real
  cleanEvent :: real

definition updateWeather :: "draws \<Rightarrow> real \<Rightarrow> real \<Rightarrow> real \<times> real" where
  "updateWeather rnd cloud wind =
    (if cloudEvent rnd < 0.05 then min 100 (cloud + cloudAmount rnd * 30)
     else if cloud > 0 then max 0 (cloud - cloudAmount rnd * 15)
     else cloud,
     if windEvent rnd < 0.1 then windAmount rnd * 15 else max 0 (wind * 0.9))"

subsection \<open>Clock\<close>

text \<open>\<^verbatim>\<open>SPEED_OPTIONS[selectedSpeed] || 72\<close>, where it is a number: the entry of a preset,
  or 72 when the lookup is \<^verbatim>\<open>undefined\<close>. For an inherited name the code's
  \<^verbatim>\<open>speedMultiplier\<close> is the inherited function or object: it is truthy, so 72 is not
  substituted, and it is no number. The tick tests for that case before it computes with
  the multiplier and ends in \<open>NotANumber\<close>; the 0 below stands for no value of the code,
  no tick reads it, and the theorems about ticks exclude the case by hypothesis.\<close>

definition speedMultiplier :: "config \<Rightarrow> nat" where
  "speedMultiplier cfg =
    (case SPEED_OPTIONS (selectedSpeed cfg) of
       Own v \<Rightarrow> if v = 0 then 72 else v
     | Undefined \<Rightarrow> 72
     | Inherited \<Rightarrow> 0)"

text \<open>The hour before the day rollover is applied, the rollover test, and the hour and
  minute the tick stores.\<close>

definition carriedHour :: "nat \<Rightarrow> sim_state \<Rightarrow> nat" where
  "carriedHour m s =
    (let newMinute = currentMinute s + m
     in if newMinute \<ge> 60 then currentHour s + newMinute div 60 else currentHour s)"

definition finalMinute :: "nat \<Rightarrow> sim_state \<Rightarrow> nat" where
  "finalMinute m s =
    (let newMinute = currentMinute s + m
     in if newMinute \<ge> 60 then newMinute mod 60 else newMinute)"

definition dayRollover :: "nat \<Rightarrow> sim_state \<Rightarrow> bool" where
  "dayRollover m s = (carriedHour m s \<ge> 24)"

definition newHour :: "nat \<Rightarrow> sim_state \<Rightarrow> nat" where
  "newHour m s = (if dayRollover m s then carriedHour m s mod 24 else carriedHour m s)"

text \<open>\<^verbatim>\<open>Math.floor((currentDate - new Date(currentDate.getFullYear(), 0, 0)) / 86400000)\<close>
  on the day count: the years from 2026 on are peeled off.\<close>

definition yearLength :: "nat \<Rightarrow> nat" where
  "yearLength y =
    (if y mod 400 = 0 then 366 else if y mod 100 = 0 then 365
     else if y mod 4 = 0 then 366 else 365)"

function dayOfYearIn :: "nat \<Rightarrow> nat \<Rightarrow> nat" where
  "dayOfYearIn y d = (if yearLength y < d then dayOfYearIn (Suc y) (d - yearLength y) else d)"
  by pat_completeness auto
termination
  by (relation "measure (\<lambda>(y, d). d)") (auto simp: yearLength_def)

definition dayOfYear :: "nat \<Rightarrow> nat" where
  "dayOfYear d = (if d = 0 then 365 else dayOfYearIn 2026 d)"

subsection \<open>One tick\<close>

text \<open>The sun parameters and the thermal power the interval callback computes: from the
  new clock reading, and from the cloud cover, wind speed, date and heliostat field of the
  state the tick starts in.\<close>

definition tickSun :: "config \<Rightarrow> sim_state \<Rightarrow> sun_parameters" where
  "tickSun cfg s =
    calculateSunParameters (locationData cfg) (cloudCover s)
      (real (newHour (speedMultiplier cfg) s)) (real (finalMinute (speedMultiplier cfg) s))
      (real (dayOfYear (currentDate s)))"

definition tickThermalPower :: "config \<Rightarrow> sim_state \<Rightarrow> real" where
  "tickThermalPower cfg s =
    calculateThermalPower (heliostats s) (windSpeed s) (dni (tickSun cfg s))"

text \<open>The updater passed to \<^verbatim>\<open>setReactorTemp\<close>.\<close>

definition nextReactorTemp :: "plastic \<Rightarrow> nat \<Rightarrow> real \<Rightarrow> bool \<Rightarrow> real \<Rightarrow> real" where
  "nextReactorTemp pd m thermalPower isDay prev =
    (if thermalPower > 5 \<and> isDay then
       (let heating = min (2 * real m / 10) (thermalPower / 10)
        in min (prev + heating) (optimal_temp pd))
     else max (prev - 0.5 * real m / 10) SALT_TEMP_COLD)"

text \<open>The updater passed to \<^verbatim>\<open>setSaltHotTemp\<close>.\<close>

definition nextSaltHotTemp :: "nat \<Rightarrow> real \<Rightarrow> bool \<Rightarrow> real \<Rightarrow> real" where
  "nextSaltHotTemp m thermalPower isDay prev =
    (if thermalPower > 3 \<and> isDay then min (prev + 0.8 * real m / 10) SALT_TEMP_HOT
     else max (prev - HEAT_LOSS_PER_HOUR * real m / 60) SALT_TEMP_COLD)"

text \<open>The updater passed to \<^verbatim>\<open>setProduction\<close> inside the pyrolysis branch.\<close>

definition addProducts :: "production_totals \<Rightarrow> products \<Rightarrow> production_totals" where
  "addProducts prev p =
    \<lparr>hydrogen = hydrogen prev + h2_kg p,
     carbon = carbon prev + carbon_kg p,
     wax = wax prev + wax_kg p,
     waste = waste prev + waste_kg p,
     totalPlasticProcessed = totalPlasticProcessed prev + plastic_kg p\<rparr>"

text \<open>The test of the pyrolysis branch: \<^verbatim>\<open>reactorTemp\<close> is the value of the render the
  callback closes over, the temperature before this tick's \<^verbatim>\<open>setReactorTemp\<close>.\<close>

definition pyrolysisReady :: "plastic \<Rightarrow> sim_state \<Rightarrow> bool" where
  "pyrolysisReady pd s = (reactorTemp s > optimal_temp pd - 200)"

definition nextProduction ::
  "plastic \<Rightarrow> nat \<Rightarrow> real \<Rightarrow> sim_state \<Rightarrow> production_totals" where
  "nextProduction pd m thermalPower s =
    (if pyrolysisReady pd s \<and> thermalPower > 2
     then addProducts (production s) (processPyrolysis pd thermalPower (60 * real m))
     else production s)"

text \<open>The three \<^verbatim>\<open>setDailyStats\<close> calls of a tick, in the order they are queued: the
  reset object on a day rollover, the functional update of the pyrolysis branch, the
  functional update of the heat loss (which reads the \<^verbatim>\<open>saltHotTemp\<close> of the render).\<close>

definition nextDailyStats ::
  "plastic \<Rightarrow> nat \<Rightarrow> real \<Rightarrow> sim_state \<Rightarrow> daily_stats" where
  "nextDailyStats pd m thermalPower s =
    (let d0 = (if dayRollover m s then zeroDailyStats else dailyStats s);
         p = processPyrolysis pd thermalPower (60 * real m);
         d1 = (if pyrolysisReady pd s \<and> thermalPower > 2
               then d0\<lparr>energyCollected := energyCollected d0 + (thermalPower * real m / 60),
                       plasticProcessed := plasticProcessed d0 + plastic_kg p,
                       hydrogenProduced := hydrogenProduced d0 + h2_kg p,
                       carbonProduced := carbonProduced d0 + carbon_kg p\<rparr>
               else d0)
     in d1\<lparr>heatLoss := heatLoss d1
             + (HEAT_LOSS_PER_HOUR * (saltHotTemp s - 20) * 0.01 * real m / 60)\<rparr>)"

text \<open>The two \<^verbatim>\<open>setHeliostats\<close> updaters, the second applied to the result of the first.\<close>

definition heliostatFault :: "heliostat_field \<Rightarrow> heliostat_field" where
  "heliostatFault prev = prev\<lparr>operational := operational prev - 1, faulty := faulty prev + 1\<rparr>"

definition heliostatCleaning :: "heliostat_field \<Rightarrow> heliostat_field" where
  "heliostatCleaning prev =
    prev\<lparr>cleaning_needed :=
            min (cleaning_needed prev + 1) (real_of_int (operational prev) * 0.1)\<rparr>"

definition nextHeliostats :: "nat \<Rightarrow> draws \<Rightarrow> heliostat_field \<Rightarrow> heliostat_field" where
  "nextHeliostats m rnd prev =
    (let h1 = (if faultEvent rnd < 0.0001 * real m then heliostatFault prev else prev)
     in if cleanEvent rnd < 0.001 * real m then heliostatCleaning h1 else h1)"

text \<open>The heat-loss update alone, on top of the reset object on a day rollover: what the
  three \<^verbatim>\<open>setDailyStats\<close> calls amount to when the pyrolysis branch is not taken.\<close>

definition heatLossOnly :: "nat \<Rightarrow> sim_state \<Rightarrow> daily_stats" where
  "heatLossOnly m s =
    (let d0 = (if dayRollover m s then zeroDailyStats else dailyStats s)
     in d0\<lparr>heatLoss := heatLoss d0
             + (HEAT_LOSS_PER_HOUR * (saltHotTemp s - 20) * 0.01 * real m / 60)\<rparr>)"

datatype stop = TypeError | NotANumber

text \<open>The interval callback. The weather is updated when the tick counter of the render is
  a multiple of 6.

  With \<^verbatim>\<open>plasticData\<close> \<^verbatim>\<open>undefined\<close>, \<^verbatim>\<open>plasticData.optimal_temp - 200\<close> raises in the
  callback; the updates queued before that statement are not modelled as applied, the
  result is the error.

  With an inherited speed name, \<^verbatim>\<open>(currentMinute || 0) + minuteIncrement\<close> is a string,
  which \<^verbatim>\<open>setCurrentMinute\<close> stores, and the temperatures and the heat loss become
  \<^verbatim>\<open>NaN\<close>: the result is \<open>NotANumber\<close>.

  With an inherited plastic name, \<^verbatim>\<open>plasticData.optimal_temp\<close> is \<^verbatim>\<open>undefined\<close> and nothing
  raises. The threshold \<^verbatim>\<open>undefined - 200\<close> is \<^verbatim>\<open>NaN\<close>, so \<^verbatim>\<open>pyrolysisReady\<close> is false and
  the pyrolysis branch is not taken. In the heating branch
  \<^verbatim>\<open>Math.min(prev + heating, undefined)\<close> is \<^verbatim>\<open>NaN\<close>, the result is \<open>NotANumber\<close>; in
  the cooling branch the reactor temperature stays a number.\<close>

definition tick :: "config \<Rightarrow> draws \<Rightarrow> sim_state \<Rightarrow> stop + sim_state" where
  "tick cfg rnd s =
    (case plasticData cfg of
       Undefined \<Rightarrow> Inl TypeError
     | Inherited \<Rightarrow>
        (if SPEED_OPTIONS (selectedSpeed cfg) = Inherited then Inl NotANumber
         else
          (let m = speedMultiplier cfg;
               weather = (if time s mod 6 = 0
                          then updateWeather rnd (cloudCover s) (windSpeed s)
                          else (cloudCover s, windSpeed s));
               thermalPower = tickThermalPower cfg s;
               isDay = isDaytime (tickSun cfg s)
           in if thermalPower > 5 \<and> isDay then Inl NotANumber
              else
               Inr (s\<lparr>time := time s + 1,
                       currentHour := newHour m s,
                       currentMinute := finalMinute m s,
                       currentDate :=
                         (if dayRollover m s then currentDate s + 1 else currentDate s),
                       cloudCover := fst weather,
                       windSpeed := snd weather,
                       heliostats := nextHeliostats m rnd (heliostats s),
                       reactorTemp := max (reactorTemp s - 0.5 * real m / 10) SALT_TEMP_COLD,
                       saltHotTemp := nextSaltHotTemp m thermalPower isDay (saltHotTemp s),
                       pyrolysisActive := False,
                       dailyStats := heatLossOnly m s\<rparr>)))
     | Own pd \<Rightarrow>
        (if SPEED_OPTIONS (selectedSpeed cfg) = Inherited then Inl NotANumber
         else
          (let m = speedMultiplier cfg;
               weather = (if time s mod 6 = 0
                          then updateWeather rnd (cloudCover s) (windSpeed s)
                          else (cloudCover s, windSpeed s));
               thermalPower = tickThermalPower cfg s;
               isDay = isDaytime (tickSun cfg s)
           in Inr (s\<lparr>time := time s + 1,
                     currentHour := newHour m s,
                     currentMinute := finalMinute m s,
                     currentDate :=
                       (if dayRollover m s then currentDate s + 1 else currentDate s),
                     cloudCover := fst weather,
                     windSpeed := snd weather,
                     heliostats := nextHeliostats m rnd (heliostats s),
                     reactorTemp := nextReactorTemp pd m thermalPower isDay (reactorTemp s),
                     saltHotTemp := nextSaltHotTemp m thermalPower isDay (saltHotTemp s),
                     pyrolysisActive := pyrolysisReady pd s,
                     production := nextProduction pd m thermalPower s,
                     dailyStats := nextDailyStats pd m thermalPower s\<rparr>))))"

subsection \<open>Render\<close>


subsection \<open>Controls\<close>

text \<open>The START/STOP button and the RESET button.\<close>

definition toggleRunning :: "sim_state \<Rightarrow> sim_state" where
  "toggleRunning s = s\<lparr>isRunning := \<not> isRunning s\<rparr>"

definition reset :: "sim_state \<Rightarrow> sim_state" where
  "reset s =
    s\<lparr>time := 0, currentHour := 6, currentMinute := 0,
      reactorTemp := 290, saltHotTemp := 420, saltColdTemp := 290,
      cloudCover := 0, windSpeed := 0,
      production := zeroProduction, dailyStats := zeroDailyStats\<rparr>"

subsection \<open>Runs\<close>

text \<open>Consecutive firings of the interval under one configuration, one record of random
  draws per tick; a tick that ends in no state ends the run.\<close>

fun run :: "config \<Rightarrow> draws list \<Rightarrow> sim_state \<Rightarrow> stop + sim_state" where
  "run cfg [] s = Inr s"
| "run cfg (rnd # rnds) s =
     (case tick cfg rnd s of Inl e \<Rightarrow> Inl e | Inr s' \<Rightarrow> run cfg rnds s')"

text \<open>The states the application can be in: the initial render, then any interleaving of
  button presses and ticks (a tick fires only while the simulation is running), the
  selectors being free to change between ticks.\<close>

inductive reachable :: "sim_state \<Rightarrow> bool" where
  r_init: "reachable initial_state"
| r_toggle: "reachable s \<Longrightarrow> reachable (toggleRunning s)"
| r_reset: "reachable s \<Longrightarrow> reachable (reset s)"
| r_tick: "reachable s \<Longrightarrow> isRunning s \<Longrightarrow> tick cfg rnd s = Inr s' \<Longrightarrow> reachable s'"

subsection \<open>A stretch of ticks at held thermal power\<close>

text \<open>The production update of \<open>n\<close> consecutive ticks in which the thermal power is held
  at \<open>tp\<close>: each tick applies the pyrolysis branch of the callback to the production
  totals; the reactor temperature is held too.\<close>

fun heldPowerRun :: "plastic \<Rightarrow> nat \<Rightarrow> real \<Rightarrow> nat \<Rightarrow> sim_state \<Rightarrow> sim_state" where
  "heldPowerRun pd m tp 0 s = s"
| "heldPowerRun pd m tp (Suc n) s =
     heldPowerRun pd m tp n (s\<lparr>production := nextProduction pd m tp s\<rparr>)"

subsection \<open>Named parts of the solar model\<close>

text \<open>The local quantities of \<^verbatim>\<open>calculateSunParameters\<close> that the proofs refer to: the
  decimal hour, the product \<^verbatim>\<open>seasonalOffset * latitudeFactor\<close> that shifts sunrise and
  sunset, the night test, and the product
  \<^verbatim>\<open>baseDNI * timeOfDayFactor * seasonalFactor\<close>, in which the cloud cover does not occur.\<close>

definition hourDecimalOf :: "real \<Rightarrow> real \<Rightarrow> real" where
  "hourDecimalOf h mi = js_or h 0 + js_or mi 0 / 60"

definition sunShift :: "location js_property \<Rightarrow> real \<Rightarrow> real" where
  "sunShift l d = sin ((js_or d 1 - 81) / 365 * 2 * pi) * 1.5 * (\<bar>lat_or_0 l\<bar> / 90)"

definition isNight :: "location js_property \<Rightarrow> real \<Rightarrow> real \<Rightarrow> real \<Rightarrow> bool" where
  "isNight l h mi d =
     (hourDecimalOf h mi < 6 - sunShift l d \<or> hourDecimalOf h mi > 18 + sunShift l d)"

definition clearSkyFactor :: "location js_property \<Rightarrow> real \<Rightarrow> real \<Rightarrow> real \<Rightarrow> real" where
  "clearSkyFactor l h mi d =
     dni_or_6 l * 1000 / 8
     * sin ((hourDecimalOf h mi - (6 - sunShift l d))
            / (18 + sunShift l d - (6 - sunShift l d)) * pi)
     * (1 + sin ((d - 81) / 365 * 2 * pi) * 0.3)"

subsection \<open>Daily accumulation as the specification words it\<close>

text \<open>The relation between the state before a tick and the state after it that holds when
  energy-collected and heat-loss are both accumulated on that tick whatever the reactor
  does: each grows by its increment, from zero on a day rollover.\<close>

definition unconditionalAccumulation :: "config \<Rightarrow> sim_state \<Rightarrow> sim_state \<Rightarrow> bool" where
  "unconditionalAccumulation cfg s s' =
    (let m = speedMultiplier cfg;
         d0 = (if dayRollover m s then zeroDailyStats else dailyStats s)
     in energyCollected (dailyStats s')
          = energyCollected d0 + tickThermalPower cfg s * real m / 60
        \<and> heatLoss (dailyStats s')
          = heatLoss d0 + HEAT_LOSS_PER_HOUR * (saltHotTemp s - 20) * 0.01 * real m / 60)"

subsection \<open>Sample random draws\<close>

text \<open>A tick in which no random event fires, one in which only the cleaning event fires
  and one in which only the fault event fires (at multiplier 72 the thresholds are 0.072
  and 0.0072).\<close>

definition calmDraw :: draws where
  "calmDraw = \<lparr>cloudEvent = 0.5, cloudAmount = 0.5, windEvent = 0.5, windAmount = 0.5,
               faultEvent = 0.5, cleanEvent = 0.5\<rparr>"

definition cleanDraw :: draws where
  "cleanDraw = calmDraw\<lparr>cleanEvent := 0.01\<rparr>"

definition faultDraw :: draws where
  "faultDraw = calmDraw\<lparr>faultEvent := 0.001\<rparr>"

subsection \<open>Sample states\<close>

text \<open>A running simulation at 22:48 of day 15, the clock reading of the fourteenth tick under
  the initial configuration; the next tick of 72 minutes crosses midnight.\<close>

definition lateEvening :: sim_state where
  "lateEvening =
     \<lparr>time = 14, isRunning = True, currentHour = 22, currentMinute = 48, currentDate = 15,
      cloudCover = 0, windSpeed = 0,
      heliostats = \<lparr>operational = 2127, maintenance = 0, cleaning_needed = 0, faulty = 0\<rparr>,
      reactorTemp = 700, saltHotTemp = 420, saltColdTemp = 290, pyrolysisActive = True,
      production = \<lparr>hydrogen = 80, carbon = 60, wax = 36, waste = 24,
                    totalPlasticProcessed = 240\<rparr>,
      dailyStats = \<lparr>energyCollected = 30, plasticProcessed = 240, hydrogenProduced = 80,
                    carbonProduced = 60, heatLoss = 1\<rparr>\<rparr>"



subsection \<open>Selections outside the catalogs\<close>








subsection \<open>Clock reading in minutes\<close>

definition minuteOfDay :: "sim_state \<Rightarrow> nat" where
  "minuteOfDay s = currentHour s * 60 + currentMinute s"

subsection \<open>Heliostat field predicates\<close>

text \<open>The field invariant as the specification words it: operational + faulty at most the
  installed count, cleaning-needed at most 10% of operational, no count negative.\<close>

definition heliostatClaim :: "heliostat_field \<Rightarrow> bool" where
  "heliostatClaim h =
    (operational h + faulty h \<le> HELIOSTAT_COUNT
     \<and> cleaning_needed h \<le> 0.1 * real_of_int (operational h)
     \<and> 0 \<le> operational h \<and> 0 \<le> faulty h \<and> 0 \<le> maintenance h
     \<and> 0 \<le> cleaning_needed h)"

text \<open>What the two updaters preserve.\<close>

definition heliostatInv :: "heliostat_field \<Rightarrow> bool" where
  "heliostatInv h =
    (operational h + faulty h = HELIOSTAT_COUNT \<and> 0 \<le> faulty h \<and> maintenance h = 0
     \<and> cleaning_needed h \<le> 0.1 * real_of_int HELIOSTAT_COUNT)"

section \<open>Catalog facts\<close>

lemma plastic_optimal_temp:
  "PLASTIC_TYPES k = Own pd \<Longrightarrow> optimal_temp pd = 850 \<or> optimal_temp pd = 900"
  by (auto simp: PLASTIC_TYPES_def js_get_def PLASTIC_TYPES_entries_def split: if_splits)

lemma PS_entry:
  "PLASTIC_TYPES ''PS'' = Own pd \<Longrightarrow>
   pd = \<lparr>h2_yield = 95, carbon_yield = 0.48, oil_yield = 0.20, gas_yield = 0.08,
         optimal_temp = 900\<rparr>"
  by (simp add: PLASTIC_TYPES_def js_get_def PLASTIC_TYPES_entries_def)

lemma location_bounds:
  "SOLAR_DATA k = Own l \<Longrightarrow> 0 < loc_dni l \<and> \<bar>lat l\<bar> \<le> 90"
  by (auto simp: SOLAR_DATA_def js_get_def SOLAR_DATA_entries_def split: if_splits)

lemma speedMultiplier_cases:
  "SPEED_OPTIONS (selectedSpeed cfg) \<noteq> Inherited \<Longrightarrow>
   speedMultiplier cfg \<in> {1, 12, 48, 72, 144}"
  by (auto simp: speedMultiplier_def SPEED_OPTIONS_def js_get_def SPEED_OPTIONS_entries_def
           split: js_property.splits if_splits)

lemma speedMultiplier_le: "speedMultiplier cfg \<le> 144"
  by (auto simp: speedMultiplier_def SPEED_OPTIONS_def js_get_def SPEED_OPTIONS_entries_def
           split: js_property.splits if_splits)

lemma speedMultiplier_pos:
  "SPEED_OPTIONS (selectedSpeed cfg) \<noteq> Inherited \<Longrightarrow> 0 < speedMultiplier cfg"
  using speedMultiplier_cases[of cfg] by auto

section \<open>Pyrolysis throughput\<close>

text \<open>From 62.5 kW of thermal power on, the reactor capacity of 500 kg/h is the binding
  limit.\<close>

lemma processPyrolysis_saturated:
  "tp \<ge> 1 / 16 \<Longrightarrow> plastic_kg (processPyrolysis pd tp dt) = 500 * (dt / 3600)"
  by (simp add: processPyrolysis_def PYROLYSIS_ENERGY_def REACTOR_CAPACITY_def Let_def min_def)

lemma processPyrolysis_h2:
  "h2_kg (processPyrolysis pd tp dt)
     = plastic_kg (processPyrolysis pd tp dt) * 1000 * h2_yield pd * 2.016 / 1000000"
  by (simp add: processPyrolysis_def Let_def)

lemma heldPowerRun_total:
  "pyrolysisReady pd s \<Longrightarrow> tp > 2 \<Longrightarrow>
   totalPlasticProcessed (production (heldPowerRun pd m tp n s))
     = totalPlasticProcessed (production s)
       + real n * plastic_kg (processPyrolysis pd tp (60 * real m))
   \<and> hydrogen (production (heldPowerRun pd m tp n s))
     = hydrogen (production s) + real n * h2_kg (processPyrolysis pd tp (60 * real m))"
proof (induction n arbitrary: s)
  case 0
  then show ?case by simp
next
  case (Suc n)
  let ?s = "s\<lparr>production := nextProduction pd m tp s\<rparr>"
  have r: "pyrolysisReady pd ?s"
    using Suc.prems by (simp add: pyrolysisReady_def)
  show ?case
    using Suc.IH[OF r Suc.prems(2)] Suc.prems
    by (simp add: nextProduction_def addProducts_def algebra_simps)
qed

text \<open>
  Claim C6. Feedstock PS, reactor ready (temperature above 900 - 200 = 700), thermal power
  10 MW. One call of \<open>processPyrolysis\<close> over 3600 simulated seconds, and any \<open>n\<close> ticks of
  multiplier \<open>m\<close> that make up one simulated hour (\<open>n * m = 60\<close> minutes), process
  min(10000 / (450/3600), 500) * 1 kg of plastic and produce that mass times
  1000 * 95 * 2.016 / 1e6 kg of hydrogen.
\<close>

theorem C6_ps_one_hour:
  assumes "PLASTIC_TYPES ''PS'' = Own pd" and "n * m = 60" and "reactorTemp s > 700"
  shows "optimal_temp pd - 200 = 700
    \<and> plastic_kg (processPyrolysis pd 10 3600) = min (10000 / (450 / 3600)) 500 * 1
    \<and> h2_kg (processPyrolysis pd 10 3600)
        = plastic_kg (processPyrolysis pd 10 3600) * 1000 * 95 * 2.016 / 1000000
    \<and> totalPlasticProcessed (production (heldPowerRun pd m 10 n s))
        = totalPlasticProcessed (production s) + min (10000 / (450 / 3600)) 500 * 1
    \<and> hydrogen (production (heldPowerRun pd m 10 n s))
        = hydrogen (production s)
          + (min (10000 / (450 / 3600)) 500 * 1) * 1000 * 95 * 2.016 / 1000000"
proof -
  have pd: "pd = \<lparr>h2_yield = 95, carbon_yield = 0.48, oil_yield = 0.20, gas_yield = 0.08,
                  optimal_temp = 900\<rparr>"
    using assms(1) by (rule PS_entry)
  have opt: "optimal_temp pd = 900" and y: "h2_yield pd = 95"
    by (simp_all add: pd)
  have rdy: "pyrolysisReady pd s"
    using assms(3) opt by (simp add: pyrolysisReady_def)
  have nm: "real n * real m = 60"
    using assms(2) by (metis of_nat_mult of_nat_numeral)
  have one: "plastic_kg (processPyrolysis pd 10 dt) = 500 * (dt / 3600)" for dt
    by (rule processPyrolysis_saturated) simp
  have tot: "real n * plastic_kg (processPyrolysis pd 10 (60 * real m)) = 500"
    using nm by (simp add: one mult.commute)
  have h2: "real n * h2_kg (processPyrolysis pd 10 (60 * real m))
              = 500 * 1000 * 95 * 2.016 / 1000000"
    using tot by (simp add: processPyrolysis_h2 y)
  have mn: "min (10000 / (450 / 3600)) 500 * 1 = (500::real)"
    by simp
  have hour: "totalPlasticProcessed (production (heldPowerRun pd m 10 n s))
        = totalPlasticProcessed (production s) + 500
    \<and> hydrogen (production (heldPowerRun pd m 10 n s))
        = hydrogen (production s) + 500 * 1000 * 95 * 2.016 / 1000000"
    using heldPowerRun_total[OF rdy, of 10 m n] by (simp only: tot h2)
  have c1: "optimal_temp pd - 200 = 700"
    by (simp add: opt)
  have c2: "plastic_kg (processPyrolysis pd 10 3600) = 500"
    by (simp add: one)
  have c3: "h2_kg (processPyrolysis pd 10 3600)
        = plastic_kg (processPyrolysis pd 10 3600) * 1000 * 95 * 2.016 / 1000000"
    by (simp add: processPyrolysis_h2 y)
  show ?thesis
    unfolding mn using c1 c2 c3 hour by blast
qed

text \<open>Five ticks of the preset 12 from a state whose reactor is at 850: 500 kg of plastic,
  95.76 kg of hydrogen.\<close>

theorem C6_ps_one_hour_witness:
  "PLASTIC_TYPES ''PS'' = Own \<lparr>h2_yield = 95, carbon_yield = 0.48, oil_yield = 0.20,
                               gas_yield = 0.08, optimal_temp = 900\<rparr>
   \<and> (5::nat) * 12 = 60
   \<and> reactorTemp (initial_state\<lparr>reactorTemp := 850\<rparr>) > 700
   \<and> totalPlasticProcessed (production (heldPowerRun
        \<lparr>h2_yield = 95, carbon_yield = 0.48, oil_yield = 0.20, gas_yield = 0.08,
         optimal_temp = 900\<rparr> 12 10 5 (initial_state\<lparr>reactorTemp := 850\<rparr>))) = 500
   \<and> hydrogen (production (heldPowerRun
        \<lparr>h2_yield = 95, carbon_yield = 0.48, oil_yield = 0.20, gas_yield = 0.08,
         optimal_temp = 900\<rparr> 12 10 5 (initial_state\<lparr>reactorTemp := 850\<rparr>))) = 95.76"
proof -
  have a: "PLASTIC_TYPES ''PS'' = Own \<lparr>h2_yield = 95, carbon_yield = 0.48, oil_yield = 0.20,
                                       gas_yield = 0.08, optimal_temp = 900\<rparr>"
    by (simp add: PLASTIC_TYPES_def js_get_def PLASTIC_TYPES_entries_def)
  have b: "(5::nat) * 12 = 60"
    by simp
  have c: "reactorTemp (initial_state\<lparr>reactorTemp := 850\<rparr>) > 700"
    by simp
  show ?thesis
    using C6_ps_one_hour[OF a b c] a by (simp add: initial_state_def zeroProduction_def)
qed

section \<open>The tick as a whole\<close>

lemma tick_total:
  "plasticData cfg = Own pd \<Longrightarrow> SPEED_OPTIONS (selectedSpeed cfg) \<noteq> Inherited \<Longrightarrow>
   \<exists>s'. tick cfg rnd s = Inr s'"
  by (simp add: tick_def Let_def)


text \<open>What every tick that ends in a state has done to the fields that do not depend on the
  plastic.\<close>

lemma tick_common:
  "tick cfg rnd s = Inr s' \<Longrightarrow>
   SPEED_OPTIONS (selectedSpeed cfg) \<noteq> Inherited
   \<and> heliostats s' = nextHeliostats (speedMultiplier cfg) rnd (heliostats s)
   \<and> currentHour s' = newHour (speedMultiplier cfg) s
   \<and> currentMinute s' = finalMinute (speedMultiplier cfg) s
   \<and> saltHotTemp s' = nextSaltHotTemp (speedMultiplier cfg) (tickThermalPower cfg s)
                         (isDaytime (tickSun cfg s)) (saltHotTemp s)
   \<and> isRunning s' = isRunning s"
  by (auto simp: tick_def Let_def split: js_property.splits if_splits)

lemma speed_initial: "SPEED_OPTIONS (selectedSpeed initial_config) \<noteq> Inherited"
  by (simp add: initial_config_def SPEED_OPTIONS_def js_get_def SPEED_OPTIONS_entries_def)

lemma speedMultiplier_initial: "speedMultiplier initial_config = 72"
  by (simp add: speedMultiplier_def initial_config_def SPEED_OPTIONS_def js_get_def
                SPEED_OPTIONS_entries_def)

lemma plasticData_initial:
  "plasticData initial_config
     = Own \<lparr>h2_yield = 168, carbon_yield = 0.25, oil_yield = 0.15, gas_yield = 0.10,
            optimal_temp = 850\<rparr>"
  by (simp add: plasticData_def initial_config_def PLASTIC_TYPES_def js_get_def
                PLASTIC_TYPES_entries_def)

text \<open>The state after START and one uneventful tick is reachable.\<close>

lemma reachable_first_tick:
  "reachable (projr (tick initial_config calmDraw (toggleRunning initial_state)))"
proof -
  obtain s' where s': "tick initial_config calmDraw (toggleRunning initial_state) = Inr s'"
    using tick_total[OF plasticData_initial speed_initial] by blast
  have "reachable (toggleRunning initial_state)"
    by (rule r_toggle[OF r_init])
  moreover have "isRunning (toggleRunning initial_state)"
    by (simp add: toggleRunning_def initial_state_def)
  ultimately have "reachable s'"
    using s' by (rule r_tick)
  then show ?thesis
    by (simp add: s')
qed

section \<open>Heliostat field\<close>

lemma tick_heliostats:
  "tick cfg rnd s = Inr s' \<Longrightarrow>
   heliostats s' = nextHeliostats (speedMultiplier cfg) rnd (heliostats s)"
  by (simp add: tick_common)

lemma nextHeliostats_inv: "heliostatInv h \<Longrightarrow> heliostatInv (nextHeliostats m rnd h)"
  by (auto simp: heliostatInv_def nextHeliostats_def heliostatFault_def heliostatCleaning_def
                 Let_def HELIOSTAT_COUNT_def min_def)

lemma reachable_heliostatInv: "reachable s \<Longrightarrow> heliostatInv (heliostats s)"
proof (induction rule: reachable.induct)
  case r_init
  show ?case
    by (simp add: heliostatInv_def initial_state_def HELIOSTAT_COUNT_def)
next
  case (r_toggle s)
  then show ?case
    by (simp add: toggleRunning_def)
next
  case (r_reset s)
  then show ?case
    by (simp add: reset_def)
next
  case (r_tick s cfg rnd s')
  then show ?case
    by (simp add: tick_heliostats nextHeliostats_inv)
qed

lemma cleaning_cap:
  "cleaning_needed (heliostatCleaning h)
     \<le> 0.1 * real_of_int (operational (heliostatCleaning h))"
  by (simp add: heliostatCleaning_def min_def)

text \<open>Along a run the heliostat field evolves on its own, by the two updaters.\<close>

lemma run_heliostats:
  "plasticData cfg = Own pd \<Longrightarrow> SPEED_OPTIONS (selectedSpeed cfg) \<noteq> Inherited \<Longrightarrow>
   map_sum id heliostats (run cfg rnds s)
     = Inr (foldl (\<lambda>h r. nextHeliostats (speedMultiplier cfg) r h) (heliostats s) rnds)"
proof (induction rnds arbitrary: s)
  case Nil
  then show ?case by simp
next
  case (Cons r rnds)
  obtain s' where s': "tick cfg r s = Inr s'"
    using tick_total[OF Cons.prems] by blast
  show ?case
    using Cons.IH[OF Cons.prems, of s'] s' by (simp add: tick_heliostats)
qed

lemma clean_steps:
  "cleaning_needed h + real n \<le> real_of_int (operational h) * 0.1 \<Longrightarrow>
   foldl (\<lambda>h r. nextHeliostats 72 r h) h (replicate n cleanDraw)
     = h\<lparr>cleaning_needed := cleaning_needed h + real n\<rparr>"
proof (induction n arbitrary: h)
  case 0
  then show ?case by simp
next
  case (Suc n)
  have step: "nextHeliostats 72 cleanDraw h = h\<lparr>cleaning_needed := cleaning_needed h + 1\<rparr>"
    using Suc.prems
    by (simp add: nextHeliostats_def cleanDraw_def calmDraw_def heliostatCleaning_def min_def)
  show ?case
    using Suc.prems by (simp add: step Suc.IH add.assoc)
qed

lemma fault_steps:
  "foldl (\<lambda>h r. nextHeliostats 72 r h) h (replicate n faultDraw)
     = h\<lparr>operational := operational h - int n, faulty := faulty h + int n\<rparr>"
proof (induction n arbitrary: h)
  case 0
  then show ?case by simp
next
  case (Suc n)
  have step: "nextHeliostats 72 faultDraw h
                = h\<lparr>operational := operational h - 1, faulty := faulty h + 1\<rparr>"
    by (simp add: nextHeliostats_def faultDraw_def calmDraw_def heliostatFault_def)
  show ?case
    by (simp add: step Suc.IH)
qed

text \<open>The decrement of \<open>operational\<close> has no floor: 2128 fault events from the initial
  field leave -1 operational heliostats.\<close>

lemma operational_below_zero:
  "map_sum id heliostats
     (run initial_config (replicate 2128 faultDraw) (toggleRunning initial_state))
     = Inr \<lparr>operational = -1, maintenance = 0, cleaning_needed = 0, faulty = 2128\<rparr>"
  by (simp add: run_heliostats[OF plasticData_initial speed_initial] speedMultiplier_initial fault_steps
                toggleRunning_def initial_state_def HELIOSTAT_COUNT_def)

text \<open>
  Claim C4, as stated: at every tick operational + faulty is at most 2127, cleaning-needed
  is at most 10% of operational, and no count is negative. It fails after START, 213 ticks
  with a cleaning event (cleaning-needed climbs to the cap 212.7 = 10% of 2127) and one tick
  with a fault event: the fault lowers operational to 2126 and leaves cleaning-needed at
  212.7, above 212.6.
\<close>

theorem C4_heliostat_claim_counterexample:
  "map_sum id heliostats
     (run initial_config (replicate 212 cleanDraw @ [cleanDraw, faultDraw])
        (toggleRunning initial_state))
     = Inr \<lparr>operational = 2126, maintenance = 0, cleaning_needed = 212.7, faulty = 1\<rparr>
   \<and> \<not> heliostatClaim
          \<lparr>operational = 2126, maintenance = 0, cleaning_needed = 212.7, faulty = 1\<rparr>"
proof -
  let ?h0 = "heliostats (toggleRunning initial_state)"
  have h0: "?h0 = \<lparr>operational = 2127, maintenance = 0, cleaning_needed = 0, faulty = 0\<rparr>"
    by (simp add: toggleRunning_def initial_state_def HELIOSTAT_COUNT_def)
  have a: "foldl (\<lambda>h r. nextHeliostats 72 r h) ?h0 (replicate 212 cleanDraw)
     = \<lparr>operational = 2127, maintenance = 0, cleaning_needed = 212, faulty = 0\<rparr>"
    by (subst clean_steps) (simp_all add: h0)
  have b: "nextHeliostats 72 cleanDraw
             \<lparr>operational = 2127, maintenance = 0, cleaning_needed = 212, faulty = 0\<rparr>
     = \<lparr>operational = 2127, maintenance = 0, cleaning_needed = 212.7, faulty = 0\<rparr>"
    by (simp add: nextHeliostats_def cleanDraw_def calmDraw_def heliostatCleaning_def min_def)
  have c: "nextHeliostats 72 faultDraw
             \<lparr>operational = 2127, maintenance = 0, cleaning_needed = 212.7, faulty = 0\<rparr>
     = \<lparr>operational = 2126, maintenance = 0, cleaning_needed = 212.7, faulty = 1\<rparr>"
    by (simp add: nextHeliostats_def faultDraw_def calmDraw_def heliostatFault_def)
  have d: "\<not> heliostatClaim
               \<lparr>operational = 2126, maintenance = 0, cleaning_needed = 212.7, faulty = 1\<rparr>"
    by (simp add: heliostatClaim_def)
  show ?thesis
    using d by (simp add: run_heliostats[OF plasticData_initial speed_initial] speedMultiplier_initial a b c)
qed

text \<open>
  Claim C4, amended. In every reachable state operational + faulty equals the installed
  count 2127 (so it is at most 2127), faulty and maintenance are not negative, and
  cleaning-needed is at most 10% of the installed count; a cleaning increment leaves
  cleaning-needed at most 10% of the operational count of that moment.
\<close>

theorem C4_heliostat_invariant:
  "reachable s \<Longrightarrow>
   operational (heliostats s) + faulty (heliostats s) = HELIOSTAT_COUNT
   \<and> operational (heliostats s) + faulty (heliostats s) \<le> 2127
   \<and> 0 \<le> faulty (heliostats s)
   \<and> 0 \<le> maintenance (heliostats s)
   \<and> cleaning_needed (heliostats s) \<le> 0.1 * real_of_int HELIOSTAT_COUNT
   \<and> cleaning_needed (heliostatCleaning (heliostats s))
       \<le> 0.1 * real_of_int (operational (heliostatCleaning (heliostats s)))"
  using reachable_heliostatInv[of s] cleaning_cap[of "heliostats s"]
  by (simp add: heliostatInv_def HELIOSTAT_COUNT_def)

theorem C4_heliostat_invariant_witness:
  "reachable (projr (tick initial_config calmDraw (toggleRunning initial_state)))
   \<and> operational (heliostats (projr (tick initial_config calmDraw (toggleRunning initial_state))))
     + faulty (heliostats (projr (tick initial_config calmDraw (toggleRunning initial_state))))
     = 2127"
  using C4_heliostat_invariant[OF reachable_first_tick] reachable_first_tick
  by (simp add: HELIOSTAT_COUNT_def)

text \<open>
  Claim C10. The maintenance count is 0 in every reachable state: it starts at 0, both
  heliostat updaters copy it, and neither button writes the heliostat field.
\<close>

theorem C10_maintenance_zero: "reachable s \<Longrightarrow> maintenance (heliostats s) = 0"
  using reachable_heliostatInv[of s] by (simp add: heliostatInv_def)

theorem C10_maintenance_zero_witness:
  "reachable (reset (toggleRunning initial_state))
   \<and> maintenance (heliostats (reset (toggleRunning initial_state))) = 0"
  using C10_maintenance_zero[OF r_reset[OF r_toggle[OF r_init]]] r_reset[OF r_toggle[OF r_init]]
  by simp

section \<open>Reset\<close>

lemma reset_defaults:
  "time (reset s) = 0 \<and> currentHour (reset s) = 6 \<and> currentMinute (reset s) = 0
   \<and> reactorTemp (reset s) = 290 \<and> saltHotTemp (reset s) = 420 \<and> saltColdTemp (reset s) = 290
   \<and> cloudCover (reset s) = 0 \<and> windSpeed (reset s) = 0
   \<and> production (reset s) = zeroProduction \<and> dailyStats (reset s) = zeroDailyStats"
  by (simp add: reset_def)

text \<open>
  Claim C2 says that RESET leaves no mutable field at its pre-reset value. The handler
  writes ten of the state variables and passes over the heliostat field, the date and the
  pyrolysis flag: after START and one tick with a fault event the field holds 2126
  operational and 1 faulty heliostat, and RESET returns that same field, not the initial
  2127 and 0.
\<close>

theorem C2_reset_keeps_heliostats:
  "heliostats (reset s) = heliostats s
   \<and> currentDate (reset s) = currentDate s
   \<and> pyrolysisActive (reset s) = pyrolysisActive s
   \<and> map_sum id (heliostats \<circ> reset)
        (run initial_config [faultDraw] (toggleRunning initial_state))
       = Inr \<lparr>operational = 2126, maintenance = 0, cleaning_needed = 0, faulty = 1\<rparr>
   \<and> heliostats initial_state
       = \<lparr>operational = 2127, maintenance = 0, cleaning_needed = 0, faulty = 0\<rparr>"
proof -
  have r: "map_sum id (heliostats \<circ> reset) x = map_sum id heliostats x"
    for x :: "stop + sim_state"
    by (cases x) (simp_all add: reset_def)
  have "map_sum id heliostats (run initial_config [faultDraw] (toggleRunning initial_state))
          = Inr \<lparr>operational = 2126, maintenance = 0, cleaning_needed = 0, faulty = 1\<rparr>"
    unfolding run_heliostats[OF plasticData_initial speed_initial] speedMultiplier_initial
    by (simp add: nextHeliostats_def faultDraw_def calmDraw_def heliostatFault_def
                  toggleRunning_def initial_state_def HELIOSTAT_COUNT_def)
  then show ?thesis
    by (simp add: r) (simp add: reset_def initial_state_def HELIOSTAT_COUNT_def)
qed

section \<open>Solar model\<close>

lemma sun_night:
  "isNight l h mi d \<Longrightarrow>
   calculateSunParameters l c h mi d
     = \<lparr>elevation = 0, dni = 0, isDaytime = False, sunrise = None, sunset = None\<rparr>"
  unfolding calculateSunParameters_def Let_def isNight_def hourDecimalOf_def sunShift_def
  by (simp only: if_True)

lemma sun_day:
  "\<not> isNight l h mi d \<Longrightarrow>
   dni (calculateSunParameters l c h mi d)
     = max 0 (clearSkyFactor l h mi d * (1 - (c / 100) * 0.7) * 1.4)
   \<and> isDaytime (calculateSunParameters l c h mi d)"
  unfolding calculateSunParameters_def Let_def isNight_def hourDecimalOf_def sunShift_def clearSkyFactor_def
  by (simp only: if_False sun_parameters.select_convs simp_thms)

lemma sunShift_equinox: "sunShift l 81 = 0"
  by (simp add: sunShift_def js_or_def)

lemma clearSkyFactor_noon: "clearSkyFactor (SOLAR_DATA ''Riyadh, Saudi Arabia'') 12 0 81 = 850"
  by (simp add: clearSkyFactor_def sunShift_equinox hourDecimalOf_def js_or_def dni_or_6_def
                SOLAR_DATA_def js_get_def SOLAR_DATA_entries_def)

lemma js_or_0 [simp]: "js_or x 0 = x"
  by (simp add: js_or_def)

lemma lat_or_0_bound: "\<bar>lat_or_0 (SOLAR_DATA k)\<bar> \<le> 90"
  using location_bounds[of k]
  by (auto simp: lat_or_0_def js_or_def split: js_property.splits)

lemma dni_or_6_pos: "0 < dni_or_6 (SOLAR_DATA k)"
  using location_bounds[of k]
  by (auto simp: dni_or_6_def js_or_def split: js_property.splits)

lemma abs_scaled:
  fixes s b :: real
  assumes "\<bar>s\<bar> \<le> 1" and "0 \<le> b"
  shows "\<bar>s * 1.5 * b\<bar> \<le> 1.5 * b"
proof -
  have "\<bar>s * 1.5 * b\<bar> = \<bar>s\<bar> * (1.5 * b)"
    using assms(2) by (simp add: abs_mult)
  also have "\<dots> \<le> 1 * (1.5 * b)"
    by (rule mult_right_mono[OF assms(1)]) (use assms(2) in simp)
  finally show ?thesis by simp
qed

lemma sunShift_bound: "\<bar>sunShift l d\<bar> \<le> 1.5 * (\<bar>lat_or_0 l\<bar> / 90)"
  unfolding sunShift_def by (rule abs_scaled[OF abs_sin_le_one]) simp

lemma sunShift_catalog: "\<bar>sunShift (SOLAR_DATA k) d\<bar> \<le> 1.5"
  using sunShift_bound[of "SOLAR_DATA k" d] lat_or_0_bound[of k] by simp

lemma night_early: "hourDecimalOf h mi < 4.5 \<Longrightarrow> isNight (SOLAR_DATA k) h mi d"
  using sunShift_catalog[of k d] unfolding isNight_def by linarith

lemma normalizedHour_range:
  assumes "\<not> isNight (SOLAR_DATA k) h mi d"
  shows "0 \<le> (hourDecimalOf h mi - (6 - sunShift (SOLAR_DATA k) d)) / (18 + sunShift (SOLAR_DATA k) d - (6 - sunShift (SOLAR_DATA k) d))
     \<and> (hourDecimalOf h mi - (6 - sunShift (SOLAR_DATA k) d)) / (18 + sunShift (SOLAR_DATA k) d - (6 - sunShift (SOLAR_DATA k) d)) \<le> 1"
proof -
  have len: "0 < 18 + sunShift (SOLAR_DATA k) d - (6 - sunShift (SOLAR_DATA k) d)"
    using sunShift_catalog[of k d] by linarith
  show ?thesis using assms len by (simp add: isNight_def field_simps)
qed

lemma seasonalFactor_pos: "0.7 \<le> 1 + sin x * (0.3::real)"
proof -
  have "- 1 \<le> sin x" by simp
  then show ?thesis by linarith
qed

lemma clearSkyFactor_nonneg:
  assumes "\<not> isNight (SOLAR_DATA k) h mi d"
  shows "0 \<le> clearSkyFactor (SOLAR_DATA k) h mi d"
proof -
  let ?nh = "(hourDecimalOf h mi - (6 - sunShift (SOLAR_DATA k) d)) / (18 + sunShift (SOLAR_DATA k) d - (6 - sunShift (SOLAR_DATA k) d))"
  have r: "0 \<le> ?nh" "?nh \<le> 1" using normalizedHour_range[OF assms] by simp_all
  have p0: "0 \<le> ?nh * pi" by (rule mult_nonneg_nonneg[OF r(1) pi_ge_zero])
  have p1: "?nh * pi \<le> pi" by (rule mult_left_le_one_le[OF pi_ge_zero r(1) r(2)])
  have tod: "0 \<le> sin (?nh * pi)" by (rule sin_ge_zero[OF p0 p1])
  have sf: "0 \<le> 1 + sin ((d - 81) / 365 * 2 * pi) * 0.3"
    using seasonalFactor_pos[of "(d - 81) / 365 * 2 * pi"] by linarith
  have base: "0 \<le> dni_or_6 (SOLAR_DATA k) * 1000 / 8" using dni_or_6_pos[of k] by simp
  show ?thesis unfolding clearSkyFactor_def
    by (intro mult_nonneg_nonneg base tod sf)
qed

lemma clearSkyFactor_pos:
  assumes "6 - sunShift (SOLAR_DATA k) d < hourDecimalOf h mi" and "hourDecimalOf h mi < 18 + sunShift (SOLAR_DATA k) d"
  shows "0 < clearSkyFactor (SOLAR_DATA k) h mi d"
proof -
  let ?nh = "(hourDecimalOf h mi - (6 - sunShift (SOLAR_DATA k) d)) / (18 + sunShift (SOLAR_DATA k) d - (6 - sunShift (SOLAR_DATA k) d))"
  have len: "0 < 18 + sunShift (SOLAR_DATA k) d - (6 - sunShift (SOLAR_DATA k) d)"
    using sunShift_catalog[of k d] by linarith
  have r: "0 < ?nh" "?nh < 1" using assms len by (simp_all add: field_simps)
  have p0: "0 < ?nh * pi" by (rule mult_pos_pos[OF r(1) pi_gt_zero])
  have "?nh * pi < 1 * pi" by (rule mult_strict_right_mono[OF r(2) pi_gt_zero])
  then have p1: "?nh * pi < pi" by (simp only: mult_1)
  have tod: "0 < sin (?nh * pi)" by (rule sin_gt_zero[OF p0 p1])
  have sf: "0 < 1 + sin ((d - 81) / 365 * 2 * pi) * 0.3"
    using seasonalFactor_pos[of "(d - 81) / 365 * 2 * pi"] by linarith
  have base: "0 < dni_or_6 (SOLAR_DATA k) * 1000 / 8" using dni_or_6_pos[of k] by simp
  show ?thesis unfolding clearSkyFactor_def
    by (intro mult_pos_pos base tod sf)
qed

text \<open>
  Claim C8. For a fixed hour, minute, day of year and catalog location, the DNI the solar
  model returns does not increase when the cloud cover grows within [0, 100]; with
  \<open>c1 = 0\<close> this is DNI(c) \<le> DNI(0). Outside daylight both sides are 0, so the daylight
  condition is not needed as a hypothesis.
\<close>

theorem C8_dni_antitone_in_cloud:
  assumes "0 \<le> c1" and "c1 \<le> c2" and "c2 \<le> 100"
  shows "dni (calculateSunParameters (SOLAR_DATA k) c2 h mi d) \<le> dni (calculateSunParameters (SOLAR_DATA k) c1 h mi d)"
proof (cases "isNight (SOLAR_DATA k) h mi d")
  case True
  then show ?thesis by (simp add: sun_night)
next
  case False
  have K: "0 \<le> clearSkyFactor (SOLAR_DATA k) h mi d" by (rule clearSkyFactor_nonneg[OF False])
  have "1 - (c2 / 100) * 0.7 \<le> 1 - (c1 / 100) * 0.7" using assms by simp
  then have "clearSkyFactor (SOLAR_DATA k) h mi d * (1 - (c2 / 100) * 0.7) \<le> clearSkyFactor (SOLAR_DATA k) h mi d * (1 - (c1 / 100) * 0.7)"
    using K by (rule mult_left_mono)
  then have "clearSkyFactor (SOLAR_DATA k) h mi d * (1 - (c2 / 100) * 0.7) * 1.4 \<le> clearSkyFactor (SOLAR_DATA k) h mi d * (1 - (c1 / 100) * 0.7) * 1.4"
    by simp
  then show ?thesis
    using sun_day[OF False, of c1] sun_day[OF False, of c2] by linarith
qed

theorem C8_dni_antitone_in_cloud_witness:
  "(0::real) \<le> 0 \<and> (0::real) \<le> 100 \<and> (100::real) \<le> 100
   \<and> dni (calculateSunParameters (SOLAR_DATA ''Riyadh, Saudi Arabia'') 100 12 0 81) = 357
   \<and> dni (calculateSunParameters (SOLAR_DATA ''Riyadh, Saudi Arabia'') 0 12 0 81) = 1190
   \<and> dni (calculateSunParameters (SOLAR_DATA ''Riyadh, Saudi Arabia'') 100 12 0 81)
       \<le> dni (calculateSunParameters (SOLAR_DATA ''Riyadh, Saudi Arabia'') 0 12 0 81)"
proof -
  have n: "\<not> isNight (SOLAR_DATA ''Riyadh, Saudi Arabia'') 12 0 81"
    by (simp add: isNight_def sunShift_equinox hourDecimalOf_def)
  have a: "dni (calculateSunParameters (SOLAR_DATA ''Riyadh, Saudi Arabia'') 100 12 0 81) = 357"
    using sun_day[OF n, of 100] by (simp add: clearSkyFactor_noon)
  have b: "dni (calculateSunParameters (SOLAR_DATA ''Riyadh, Saudi Arabia'') 0 12 0 81) = 1190"
    using sun_day[OF n, of 0] by (simp add: clearSkyFactor_noon)
  have h1: "(0::real) \<le> 0" and h2: "(0::real) \<le> 100" and h3: "(100::real) \<le> 100" by simp_all
  show ?thesis
    using C8_dni_antitone_in_cloud[OF h1 h2 h3, of "''Riyadh, Saudi Arabia''" 12 0 81] a b by simp
qed

section \<open>Fields of the state after a tick\<close>

lemma tick_Inr:
  "plasticData cfg = Own pd \<Longrightarrow> SPEED_OPTIONS (selectedSpeed cfg) \<noteq> Inherited \<Longrightarrow>
   \<exists>s'. tick cfg rnd s = Inr s'
     \<and> dailyStats s' = nextDailyStats pd (speedMultiplier cfg) (tickThermalPower cfg s) s
     \<and> production s' = nextProduction pd (speedMultiplier cfg) (tickThermalPower cfg s) s
     \<and> reactorTemp s' = nextReactorTemp pd (speedMultiplier cfg) (tickThermalPower cfg s)
                           (isDaytime (tickSun cfg s)) (reactorTemp s)
     \<and> saltHotTemp s' = nextSaltHotTemp (speedMultiplier cfg) (tickThermalPower cfg s)
                           (isDaytime (tickSun cfg s)) (saltHotTemp s)
     \<and> pyrolysisActive s' = pyrolysisReady pd s
     \<and> currentHour s' = newHour (speedMultiplier cfg) s
     \<and> currentMinute s' = finalMinute (speedMultiplier cfg) s
     \<and> currentDate s' = (if dayRollover (speedMultiplier cfg) s then currentDate s + 1 else currentDate s)
     \<and> time s' = time s + 1
     \<and> isRunning s' = isRunning s
     \<and> saltColdTemp s' = saltColdTemp s
     \<and> heliostats s' = nextHeliostats (speedMultiplier cfg) rnd (heliostats s)
     \<and> cloudCover s'
         = (if time s mod 6 = 0 then fst (updateWeather rnd (cloudCover s) (windSpeed s))
            else cloudCover s)
     \<and> windSpeed s'
         = (if time s mod 6 = 0 then snd (updateWeather rnd (cloudCover s) (windSpeed s))
            else windSpeed s)"
  by (simp add: tick_def Let_def)

lemma nextDailyStats_heatLoss:
  "heatLoss (nextDailyStats pd m tp s)
     = heatLoss (if dayRollover m s then zeroDailyStats else dailyStats s)
       + HEAT_LOSS_PER_HOUR * (saltHotTemp s - 20) * 0.01 * real m / 60"
  by (simp add: nextDailyStats_def Let_def)

lemma nextDailyStats_energy:
  "energyCollected (nextDailyStats pd m tp s)
     = energyCollected (if dayRollover m s then zeroDailyStats else dailyStats s)
       + (if pyrolysisReady pd s \<and> tp > 2 then tp * real m / 60 else 0)"
  by (simp add: nextDailyStats_def Let_def)

section \<open>Daily accumulation\<close>

text \<open>The first tick after START under the initial configuration: the clock moves from
  6:00 to 7:12 on day 15, the sun is up in Riyadh and the thermal power is positive.\<close>

lemma first_clock:
  "newHour 72 (toggleRunning initial_state) = 7 \<and> finalMinute 72 (toggleRunning initial_state) = 12
   \<and> \<not> dayRollover 72 (toggleRunning initial_state)"
  by (simp add: newHour_def finalMinute_def dayRollover_def carriedHour_def toggleRunning_def initial_state_def Let_def)

lemma dayOfYear_15: "dayOfYear 15 = 15"
  by (simp add: dayOfYear_def yearLength_def)

lemma locationData_initial:
  "locationData initial_config = SOLAR_DATA ''Riyadh, Saudi Arabia''"
  by (simp add: locationData_def initial_config_def)

lemma riyadh_lat: "lat_or_0 (SOLAR_DATA ''Riyadh, Saudi Arabia'') = 24.7"
  by (simp add: lat_or_0_def js_or_def SOLAR_DATA_def js_get_def SOLAR_DATA_entries_def)

lemma first_tick_power: "0 < tickThermalPower initial_config (toggleRunning initial_state)"
proof -
  let ?l = "SOLAR_DATA ''Riyadh, Saudi Arabia''"
  have sh: "\<bar>sunShift ?l 15\<bar> \<le> 1.5 * (24.7 / 90)"
    using sunShift_bound[of ?l 15] by (simp add: riyadh_lat)
  have hd: "hourDecimalOf 7 12 = 7.2" by (simp add: hourDecimalOf_def)
  have a: "6 - sunShift ?l 15 < hourDecimalOf 7 12" unfolding hd using sh by linarith
  have b: "hourDecimalOf 7 12 < 18 + sunShift ?l 15" unfolding hd using sh by linarith
  have day: "\<not> isNight ?l 7 12 15" using a b by (simp add: isNight_def)
  have K: "0 < clearSkyFactor ?l 7 12 15" by (rule clearSkyFactor_pos[OF a b])
  have d: "dni (calculateSunParameters ?l 0 7 12 15) = clearSkyFactor ?l 7 12 15 * 1.4"
    using sun_day[OF day, of 0] K by simp
  have sun: "tickSun initial_config (toggleRunning initial_state) = calculateSunParameters ?l 0 7 12 15"
    using first_clock
    by (simp add: tickSun_def speedMultiplier_initial locationData_initial dayOfYear_15)
       (simp add: toggleRunning_def initial_state_def dayOfYear_15)
  show ?thesis
    unfolding tickThermalPower_def sun d
    using K
    by (simp add: calculateThermalPower_def Let_def
                  toggleRunning_def initial_state_def HELIOSTAT_COUNT_def HELIOSTAT_AREA_def
                  HELIOSTAT_EFFICIENCY_def RECEIVER_EFFICIENCY_def)
qed

text \<open>
  Claim C1, as stated: every tick adds the energy collected, thermal power times the
  multiplier over 60, to DailyStats, whether or not pyrolysis runs. On the first tick after
  START the thermal power is positive and the reactor, at 290, is not ready: the
  energy-collected field stays 0.
\<close>

theorem C1_energy_gated_counterexample:
  "map_sum id (unconditionalAccumulation initial_config (toggleRunning initial_state))
     (tick initial_config calmDraw (toggleRunning initial_state)) = Inr False"
proof -
  let ?s = "toggleRunning initial_state"
  obtain s' where s': "tick initial_config calmDraw ?s = Inr s'"
    and d: "dailyStats s' = nextDailyStats \<lparr>h2_yield = 168, carbon_yield = 0.25, oil_yield = 0.15, gas_yield = 0.10,
             optimal_temp = 850\<rparr> 72 (tickThermalPower initial_config ?s) ?s"
    using tick_Inr[OF plasticData_initial speed_initial, of calmDraw ?s]
    by (auto simp: speedMultiplier_initial)
  have nr: "\<not> pyrolysisReady \<lparr>h2_yield = 168, carbon_yield = 0.25, oil_yield = 0.15, gas_yield = 0.10,
             optimal_temp = 850\<rparr> ?s"
    by (simp add: pyrolysisReady_def toggleRunning_def initial_state_def)
  have e: "energyCollected (dailyStats s') = 0"
    using first_clock nr by (simp add: d nextDailyStats_energy) (simp add: toggleRunning_def initial_state_def zeroDailyStats_def)
  have "\<not> unconditionalAccumulation initial_config ?s s'"
    using first_tick_power first_clock
    by (simp add: unconditionalAccumulation_def Let_def speedMultiplier_initial e)
       (simp add: toggleRunning_def initial_state_def zeroDailyStats_def)
  then show ?thesis by (simp add: s')
qed

text \<open>
  Claim C1, amended. Every tick adds the heat loss, computed from the hot-salt temperature
  above 20 degrees, to DailyStats, whatever the reactor does. The energy collected is added
  only on a tick on which the reactor is ready and the thermal power exceeds 2 MW, inside
  the pyrolysis branch. The feedstock is one of the catalog and the speed key one that gives
  a number (a preset, or a key the catalog does not answer, with multiplier 72).
\<close>

theorem C1_heat_loss_every_tick:
  assumes "plasticData cfg = Own pd" and "SPEED_OPTIONS (selectedSpeed cfg) \<noteq> Inherited"
  shows "\<exists>s'. tick cfg rnd s = Inr s'
     \<and> heatLoss (dailyStats s')
         = heatLoss (if dayRollover (speedMultiplier cfg) s then zeroDailyStats else dailyStats s)
           + HEAT_LOSS_PER_HOUR * (saltHotTemp s - 20) * 0.01 * real (speedMultiplier cfg) / 60
     \<and> energyCollected (dailyStats s')
         = energyCollected (if dayRollover (speedMultiplier cfg) s then zeroDailyStats else dailyStats s)
           + (if pyrolysisReady pd s \<and> tickThermalPower cfg s > 2
              then tickThermalPower cfg s * real (speedMultiplier cfg) / 60 else 0)"
  using tick_Inr[OF assms, of rnd s]
  by (auto simp only: nextDailyStats_heatLoss nextDailyStats_energy)

theorem C1_heat_loss_every_tick_witness:
  "plasticData initial_config
     = Own \<lparr>h2_yield = 168, carbon_yield = 0.25, oil_yield = 0.15, gas_yield = 0.10,
            optimal_temp = 850\<rparr>
   \<and> SPEED_OPTIONS (selectedSpeed initial_config) \<noteq> Inherited
   \<and> map_sum id (heatLoss \<circ> dailyStats)
         (tick initial_config calmDraw (toggleRunning initial_state)) = Inr 0.096"
proof -
  obtain s' where s': "tick initial_config calmDraw (toggleRunning initial_state) = Inr s'"
    and h: "heatLoss (dailyStats s')
         = heatLoss (if dayRollover (speedMultiplier initial_config) (toggleRunning initial_state)
                     then zeroDailyStats else dailyStats (toggleRunning initial_state))
           + HEAT_LOSS_PER_HOUR * (saltHotTemp (toggleRunning initial_state) - 20) * 0.01
             * real (speedMultiplier initial_config) / 60"
    using C1_heat_loss_every_tick[OF plasticData_initial speed_initial,
            of calmDraw "toggleRunning initial_state"]
    by blast
  have "heatLoss (dailyStats s') = 0.096"
    unfolding h speedMultiplier_initial using first_clock
    by (simp add: HEAT_LOSS_PER_HOUR_def)
       (simp add: toggleRunning_def initial_state_def zeroDailyStats_def)
  then show ?thesis
    using plasticData_initial speed_initial by (simp add: s')
qed

section \<open>Day rollover\<close>

lemma reachable_clock: "reachable s \<Longrightarrow> currentHour s < 24 \<and> currentMinute s < 60"
proof (induction rule: reachable.induct)
  case r_init
  show ?case by (simp add: initial_state_def)
next
  case (r_toggle s)
  then show ?case by (simp add: toggleRunning_def)
next
  case (r_reset s)
  show ?case by (simp add: reset_def)
next
  case (r_tick s cfg rnd s')
  have "currentHour s' = newHour (speedMultiplier cfg) s"
       "currentMinute s' = finalMinute (speedMultiplier cfg) s"
    using tick_common[OF r_tick.hyps(3)] by simp_all
  then show ?case
    by (simp add: newHour_def finalMinute_def dayRollover_def Let_def)
qed

lemma rollover_clock:
  assumes "currentHour s < 24" and "currentMinute s < 60" and "m \<le> 144" and "dayRollover m s"
  shows "newHour m s \<le> 2 \<and> finalMinute m s < 60"
proof -
  have "(currentMinute s + m) div 60 \<le> 3" using assms(2,3) by simp
  then have c: "carriedHour m s \<le> 26" using assms(1) by (simp add: carriedHour_def Let_def)
  have "24 \<le> carriedHour m s" using assms(4) by (simp add: dayRollover_def)
  with c have "carriedHour m s mod 24 \<le> 2" by presburger
  then show ?thesis using assms(4) by (simp add: newHour_def finalMinute_def Let_def)
qed

lemma calculateThermalPower_zero: "calculateThermalPower h w 0 = 0"
  by (simp add: calculateThermalPower_def Let_def)

lemma rollover_night:
  assumes "currentHour s < 24" and "currentMinute s < 60" and "dayRollover (speedMultiplier cfg) s"
  shows "tickThermalPower cfg s = 0"
proof -
  let ?m = "speedMultiplier cfg"
  have c: "newHour ?m s \<le> 2" "finalMinute ?m s < 60"
    using rollover_clock[OF assms(1,2) speedMultiplier_le assms(3)] by simp_all
  have "real (newHour ?m s) \<le> 2" "real (finalMinute ?m s) < 60" using c by simp_all
  then have "hourDecimalOf (real (newHour ?m s)) (real (finalMinute ?m s)) < 4.5"
    by (simp add: hourDecimalOf_def)
  then have "isNight (SOLAR_DATA (selectedLocation cfg)) (real (newHour ?m s)) (real (finalMinute ?m s))
               (real (dayOfYear (currentDate s)))"
    by (rule night_early)
  then have "dni (tickSun cfg s) = 0"
    by (simp add: tickSun_def locationData_def sun_night)
  then show ?thesis by (simp add: tickThermalPower_def calculateThermalPower_zero)
qed

lemma rollover_tick:
  assumes "plasticData cfg = Own pd" and "SPEED_OPTIONS (selectedSpeed cfg) \<noteq> Inherited"
    and "currentHour s < 24" and "currentMinute s < 60"
    and "dayRollover (speedMultiplier cfg) s"
  shows "\<exists>s'. tick cfg rnd s = Inr s'
     \<and> dailyStats s' = \<lparr>energyCollected = 0, plasticProcessed = 0, hydrogenProduced = 0, carbonProduced = 0,
          heatLoss = HEAT_LOSS_PER_HOUR * (saltHotTemp s - 20) * 0.01 * real (speedMultiplier cfg) / 60\<rparr>
     \<and> production s' = production s"
  using tick_Inr[OF assms(1,2), of rnd s] assms(5)
  by (auto simp: rollover_night[OF assms(3,4,5)] nextDailyStats_def nextProduction_def
                 zeroDailyStats_def Let_def)

lemma lateEvening_rollover: "currentHour lateEvening < 24 \<and> currentMinute lateEvening < 60 \<and> dayRollover (speedMultiplier initial_config) lateEvening"
  by (simp add: lateEvening_def speedMultiplier_initial dayRollover_def carriedHour_def Let_def)

text \<open>
  Claim C7, as stated: on the tick that crosses hour 24 every DailyStats field is reset to
  0. At 22:48 with multiplier 72 the tick rolls the day over; the reset object is queued
  first and the heat-loss update of the same tick is applied to it, so the tick ends with
  heat loss 0.02 * (420 - 20) * 0.01 * 72 / 60 = 0.096, not 0.
\<close>

theorem C7_heat_loss_after_reset_counterexample:
  "dayRollover (speedMultiplier initial_config) lateEvening
   \<and> map_sum id dailyStats (tick initial_config calmDraw lateEvening)
       = Inr \<lparr>energyCollected = 0, plasticProcessed = 0, hydrogenProduced = 0, carbonProduced = 0, heatLoss = 0.096\<rparr>
   \<and> \<lparr>energyCollected = 0, plasticProcessed = 0, hydrogenProduced = 0, carbonProduced = 0, heatLoss = 0.096\<rparr> \<noteq> zeroDailyStats"
proof -
  have r: "currentHour lateEvening < 24" "currentMinute lateEvening < 60" "dayRollover (speedMultiplier initial_config) lateEvening"
    using lateEvening_rollover by simp_all
  obtain s' where s': "tick initial_config calmDraw lateEvening = Inr s'"
    and d: "dailyStats s' = \<lparr>energyCollected = 0, plasticProcessed = 0, hydrogenProduced = 0, carbonProduced = 0,
          heatLoss = HEAT_LOSS_PER_HOUR * (saltHotTemp lateEvening - 20) * 0.01 * real (speedMultiplier initial_config) / 60\<rparr>"
    using rollover_tick[OF plasticData_initial speed_initial r, of calmDraw] by blast
  have "dailyStats s' = \<lparr>energyCollected = 0, plasticProcessed = 0, hydrogenProduced = 0, carbonProduced = 0, heatLoss = 0.096\<rparr>"
    unfolding d speedMultiplier_initial by (simp add: HEAT_LOSS_PER_HOUR_def lateEvening_def)
  then show ?thesis using r(3) by (simp add: s' zeroDailyStats_def)
qed

text \<open>
  Claim C7, amended. On the tick that crosses hour 24, DailyStats is reset to zero before
  that tick's own contributions are added: after the tick energy collected, plastic
  processed, hydrogen produced and carbon produced are 0 and heat loss equals the heat-loss
  increment of that one tick. ProductionTotals is unchanged by that tick (the new clock
  reading is before 3:00, the sun is down and the thermal power is 0). The feedstock is one
  of the catalog and the speed key one that gives a number.
\<close>

theorem C7_rollover_tick:
  assumes "plasticData cfg = Own pd" and "SPEED_OPTIONS (selectedSpeed cfg) \<noteq> Inherited"
    and "currentHour s < 24" and "currentMinute s < 60"
    and "dayRollover (speedMultiplier cfg) s"
  shows "\<exists>s'. tick cfg rnd s = Inr s'
     \<and> energyCollected (dailyStats s') = 0 \<and> plasticProcessed (dailyStats s') = 0
     \<and> hydrogenProduced (dailyStats s') = 0 \<and> carbonProduced (dailyStats s') = 0
     \<and> heatLoss (dailyStats s') = HEAT_LOSS_PER_HOUR * (saltHotTemp s - 20) * 0.01 * real (speedMultiplier cfg) / 60
     \<and> production s' = production s"
  using rollover_tick[OF assms, of rnd] by auto

theorem C7_rollover_tick_witness:
  "plasticData initial_config
     = Own \<lparr>h2_yield = 168, carbon_yield = 0.25, oil_yield = 0.15, gas_yield = 0.10,
            optimal_temp = 850\<rparr>
   \<and> SPEED_OPTIONS (selectedSpeed initial_config) \<noteq> Inherited
   \<and> currentHour lateEvening < 24 \<and> currentMinute lateEvening < 60
   \<and> dayRollover (speedMultiplier initial_config) lateEvening
   \<and> map_sum id production (tick initial_config calmDraw lateEvening)
       = Inr \<lparr>hydrogen = 80, carbon = 60, wax = 36, waste = 24, totalPlasticProcessed = 240\<rparr>
   \<and> map_sum id (energyCollected \<circ> dailyStats) (tick initial_config calmDraw lateEvening) = Inr 0"
proof -
  have r: "currentHour lateEvening < 24" "currentMinute lateEvening < 60" "dayRollover (speedMultiplier initial_config) lateEvening"
    using lateEvening_rollover by simp_all
  obtain s' where s': "tick initial_config calmDraw lateEvening = Inr s'"
    and e: "energyCollected (dailyStats s') = 0" and p: "production s' = production lateEvening"
    using C7_rollover_tick[OF plasticData_initial speed_initial r, of calmDraw] by blast
  show ?thesis
    using plasticData_initial speed_initial r by (simp add: s' e p) (simp add: lateEvening_def)
qed


section \<open>Reactor temperature\<close>

lemma nextReactorTemp_bounds:
  assumes "SALT_TEMP_COLD \<le> prev" and "prev \<le> optimal_temp pd"
    and "SALT_TEMP_COLD \<le> optimal_temp pd"
  shows "SALT_TEMP_COLD \<le> nextReactorTemp pd m tp isDay prev
       \<and> nextReactorTemp pd m tp isDay prev \<le> optimal_temp pd"
proof (cases "tp > 5 \<and> isDay")
  case True
  then show ?thesis
    using assms by (auto simp: nextReactorTemp_def Let_def min_def)
next
  case False
  then show ?thesis
    using assms by (auto simp: nextReactorTemp_def)
qed

lemma optimal_temp_ge_cold: "plasticData cfg = Own pd \<Longrightarrow> SALT_TEMP_COLD \<le> optimal_temp pd"
  using plastic_optimal_temp[of "selectedPlastic cfg" pd]
  by (auto simp: plasticData_def SALT_TEMP_COLD_def)

lemma run_reactorTemp:
  assumes "plasticData cfg = Own pd" and "SPEED_OPTIONS (selectedSpeed cfg) \<noteq> Inherited"
  shows "SALT_TEMP_COLD \<le> reactorTemp s \<Longrightarrow> reactorTemp s \<le> optimal_temp pd \<Longrightarrow>
     \<exists>s'. run cfg rnds s = Inr s'
       \<and> SALT_TEMP_COLD \<le> reactorTemp s' \<and> reactorTemp s' \<le> optimal_temp pd"
proof (induction rnds arbitrary: s)
  case Nil
  then show ?case by simp
next
  case (Cons r rnds)
  obtain s1 where s1: "tick cfg r s = Inr s1"
    and t: "reactorTemp s1 = nextReactorTemp pd (speedMultiplier cfg) (tickThermalPower cfg s)
                               (isDaytime (tickSun cfg s)) (reactorTemp s)"
    using tick_Inr[OF assms, of r s] by blast
  have b: "SALT_TEMP_COLD \<le> reactorTemp s1 \<and> reactorTemp s1 \<le> optimal_temp pd"
    unfolding t
    by (rule nextReactorTemp_bounds[OF Cons.prems optimal_temp_ge_cold[OF assms(1)]])
  show ?case
    using Cons.IH[of s1] b by (simp add: s1)
qed

text \<open>
  Claim C5. Under any configuration whose feedstock is in the catalog and whose speed key
  gives a number (each of the five presets, or a key the catalog does not answer, for which
  the multiplier is 72), a run of any number of ticks that starts with the reactor at 290
  never raises and ends with the reactor temperature between the cold-salt floor 290 and
  the optimal temperature of the feedstock. The random draws of the ticks are arbitrary.
\<close>

theorem C5_reactor_temperature_range:
  assumes "plasticData cfg = Own pd" and "SPEED_OPTIONS (selectedSpeed cfg) \<noteq> Inherited"
    and "reactorTemp s = 290"
  shows "\<exists>s'. run cfg rnds s = Inr s'
    \<and> SALT_TEMP_COLD \<le> reactorTemp s' \<and> 290 \<le> reactorTemp s'
    \<and> reactorTemp s' \<le> optimal_temp pd"
proof -
  have a: "SALT_TEMP_COLD \<le> reactorTemp s"
    using assms(3) by (simp add: SALT_TEMP_COLD_def)
  have b: "reactorTemp s \<le> optimal_temp pd"
    using optimal_temp_ge_cold[OF assms(1)] assms(3) by (simp add: SALT_TEMP_COLD_def)
  show ?thesis
    using run_reactorTemp[OF assms(1,2) a b, of rnds] by (auto simp: SALT_TEMP_COLD_def)
qed

theorem C5_reactor_temperature_range_witness:
  "plasticData initial_config
     = Own \<lparr>h2_yield = 168, carbon_yield = 0.25, oil_yield = 0.15, gas_yield = 0.10,
            optimal_temp = 850\<rparr>
   \<and> SPEED_OPTIONS (selectedSpeed initial_config) \<noteq> Inherited
   \<and> reactorTemp (toggleRunning initial_state) = 290
   \<and> \<not> isl (run initial_config [calmDraw, cleanDraw, faultDraw] (toggleRunning initial_state))
   \<and> 290 \<le> reactorTemp (projr (run initial_config [calmDraw, cleanDraw, faultDraw]
                                   (toggleRunning initial_state)))
   \<and> reactorTemp (projr (run initial_config [calmDraw, cleanDraw, faultDraw]
                            (toggleRunning initial_state))) \<le> 850"
proof -
  have t: "reactorTemp (toggleRunning initial_state) = 290"
    by (simp add: toggleRunning_def initial_state_def)
  obtain s' where
    "run initial_config [calmDraw, cleanDraw, faultDraw] (toggleRunning initial_state) = Inr s'"
    "290 \<le> reactorTemp s'"
    "reactorTemp s' \<le> optimal_temp \<lparr>h2_yield = 168, carbon_yield = 0.25, oil_yield = 0.15,
                                     gas_yield = 0.10, optimal_temp = 850\<rparr>"
    using C5_reactor_temperature_range[OF plasticData_initial speed_initial t,
            of "[calmDraw, cleanDraw, faultDraw]"]
    by blast
  then show ?thesis
    using plasticData_initial speed_initial t by simp
qed

section \<open>Pyrolysis readiness\<close>




















section \<open>Selections outside the catalogs\<close>














section \<open>Day rollovers of reachable states\<close>

text \<open>The clock advances by the multiplier modulo the 1440 minutes of a day. Fourteen ticks
  after START under the initial configuration the simulation stands at 22:48 and the next
  tick rolls the day over; and whenever a reachable state rolls over, the tick leaves a
  positive heat loss in DailyStats, the hot salt never being colder than 290.\<close>

lemma hour_minute_mod:
  fixes c f :: nat
  assumes "f < 60"
  shows "(c * 60 + f) mod 1440 = (c mod 24) * 60 + f"
proof -
  have g: "(a * 24 + b) * 60 + f = (b * 60 + f) + 1440 * a" for a b :: nat
    by simp
  have "c * 60 + f = (c div 24 * 24 + c mod 24) * 60 + f"
    by (simp only: div_mult_mod_eq)
  then have e: "c * 60 + f = ((c mod 24) * 60 + f) + 1440 * (c div 24)"
    by (simp only: g)
  have "c mod 24 \<le> 23" using mod_less_divisor[of 24 c] by linarith
  then have "(c mod 24) * 60 \<le> 23 * 60" by (rule mult_le_mono1)
  then have b: "(c mod 24) * 60 + f < 1440" using assms by simp
  have "(c * 60 + f) mod 1440 = ((c mod 24) * 60 + f) mod 1440"
    by (subst e) (rule mod_mult_self2)
  then show ?thesis using b by simp
qed

lemma clock_step:
  "newHour m s * 60 + finalMinute m s = (currentHour s * 60 + currentMinute s + m) mod 1440"
proof -
  have c: "carriedHour m s * 60 + finalMinute m s = currentHour s * 60 + (currentMinute s + m)"
    by (simp add: carriedHour_def finalMinute_def Let_def)
  have f: "finalMinute m s < 60"
    by (simp add: finalMinute_def Let_def)
  have "newHour m s = carriedHour m s mod 24"
    by (simp add: newHour_def dayRollover_def)
  then have "newHour m s * 60 + finalMinute m s = (carriedHour m s * 60 + finalMinute m s) mod 1440"
    using hour_minute_mod[OF f, of "carriedHour m s"] by simp
  then show ?thesis by (simp only: c add.assoc)
qed


lemma tick_minuteOfDay:
  assumes "tick cfg rnd s = Inr s'"
  shows "minuteOfDay s' = (minuteOfDay s + speedMultiplier cfg) mod 1440"
proof -
  have "currentHour s' = newHour (speedMultiplier cfg) s"
       "currentMinute s' = finalMinute (speedMultiplier cfg) s"
    using tick_common[OF assms] by simp_all
  then show ?thesis by (simp add: minuteOfDay_def clock_step)
qed

lemma run_minuteOfDay:
  "minuteOfDay s < 1440 \<Longrightarrow> run cfg rnds s = Inr s' \<Longrightarrow>
   minuteOfDay s' = (minuteOfDay s + length rnds * speedMultiplier cfg) mod 1440"
proof (induction rnds arbitrary: s)
  case Nil
  then show ?case by simp
next
  case (Cons r rnds)
  from Cons.prems(2) obtain s1 where s1: "tick cfg r s = Inr s1" and rest: "run cfg rnds s1 = Inr s'"
    by (cases "tick cfg r s") simp_all
  have m1: "minuteOfDay s1 = (minuteOfDay s + speedMultiplier cfg) mod 1440"
    by (rule tick_minuteOfDay[OF s1])
  then have lt: "minuteOfDay s1 < 1440" by simp
  have "minuteOfDay s' = ((minuteOfDay s + speedMultiplier cfg) mod 1440 + length rnds * speedMultiplier cfg) mod 1440"
    using Cons.IH[OF lt rest] by (simp only: m1)
  also have "\<dots> = (minuteOfDay s + speedMultiplier cfg + length rnds * speedMultiplier cfg) mod 1440"
    by (rule mod_add_left_eq)
  finally show ?case by (simp add: algebra_simps)
qed

lemma run_reachable:
  "reachable s \<Longrightarrow> isRunning s \<Longrightarrow> run cfg rnds s = Inr s' \<Longrightarrow> reachable s' \<and> isRunning s'"
proof (induction rnds arbitrary: s)
  case Nil
  then show ?case by simp
next
  case (Cons r rnds)
  from Cons.prems(3) obtain s1 where s1: "tick cfg r s = Inr s1" and rest: "run cfg rnds s1 = Inr s'"
    by (cases "tick cfg r s") simp_all
  have r1: "reachable s1" by (rule r_tick[OF Cons.prems(1,2) s1])
  have "isRunning s1" using tick_common[OF s1] Cons.prems(2) by simp
  then show ?case using Cons.IH[OF r1 _ rest] by simp
qed

lemma nextSaltHotTemp_floor:
  "SALT_TEMP_COLD \<le> prev \<Longrightarrow> SALT_TEMP_COLD \<le> nextSaltHotTemp m tp isDay prev"
  by (auto simp: nextSaltHotTemp_def SALT_TEMP_COLD_def SALT_TEMP_HOT_def)

lemma reachable_saltHot: "reachable s \<Longrightarrow> SALT_TEMP_COLD \<le> saltHotTemp s"
proof (induction rule: reachable.induct)
  case r_init
  show ?case by (simp add: initial_state_def SALT_TEMP_COLD_def)
next
  case (r_toggle s)
  then show ?case by (simp add: toggleRunning_def)
next
  case (r_reset s)
  show ?case by (simp add: reset_def SALT_TEMP_COLD_def)
next
  case (r_tick s cfg rnd s')
  have "saltHotTemp s' = nextSaltHotTemp (speedMultiplier cfg) (tickThermalPower cfg s)
                           (isDaytime (tickSun cfg s)) (saltHotTemp s)"
    using tick_common[OF r_tick.hyps(3)] by simp
  then show ?case using r_tick.IH by (simp add: nextSaltHotTemp_floor)
qed

lemma rollover_heat_loss_positive:
  assumes "reachable s" and "plasticData cfg = Own pd"
    and "SPEED_OPTIONS (selectedSpeed cfg) \<noteq> Inherited"
    and "dayRollover (speedMultiplier cfg) s"
  shows "\<exists>s'. tick cfg rnd s = Inr s' \<and> 0 < heatLoss (dailyStats s')"
proof -
  have c: "currentHour s < 24" "currentMinute s < 60" using reachable_clock[OF assms(1)] by simp_all
  obtain s' where s': "tick cfg rnd s = Inr s'"
    and d: "dailyStats s' = \<lparr>energyCollected = 0, plasticProcessed = 0, hydrogenProduced = 0, carbonProduced = 0,
          heatLoss = HEAT_LOSS_PER_HOUR * (saltHotTemp s - 20) * 0.01 * real (speedMultiplier cfg) / 60\<rparr>"
    using rollover_tick[OF assms(2,3) c assms(4), of rnd] by blast
  have "0 < saltHotTemp s - 20" using reachable_saltHot[OF assms(1)] by (simp add: SALT_TEMP_COLD_def)
  moreover have "0 < real (speedMultiplier cfg)" using speedMultiplier_pos[OF assms(3)] by simp
  ultimately have "0 < heatLoss (dailyStats s')"
    by (simp add: d HEAT_LOSS_PER_HOUR_def)
  then show ?thesis using s' by blast
qed

lemma rollover_reachable:
  "\<exists>s. reachable s \<and> isRunning s \<and> currentHour s = 22 \<and> currentMinute s = 48
       \<and> dayRollover (speedMultiplier initial_config) s"
proof -
  let ?s0 = "toggleRunning initial_state"
  obtain s where s: "run initial_config (replicate 14 calmDraw) ?s0 = Inr s"
    using run_reactorTemp[OF plasticData_initial speed_initial, of ?s0 "replicate 14 calmDraw"]
    by (auto simp: toggleRunning_def initial_state_def SALT_TEMP_COLD_def)
  have r0: "reachable ?s0" by (rule r_toggle[OF r_init])
  have i0: "isRunning ?s0" by (simp add: toggleRunning_def initial_state_def)
  have r: "reachable s" "isRunning s" using run_reachable[OF r0 i0 s] by simp_all
  have m0: "minuteOfDay ?s0 = 360" by (simp add: minuteOfDay_def toggleRunning_def initial_state_def)
  have "minuteOfDay s = 1368"
    using run_minuteOfDay[OF _ s] by (simp add: m0 speedMultiplier_initial)
  then have e: "currentHour s * 60 + currentMinute s = 1368" by (simp add: minuteOfDay_def)
  have "currentMinute s < 60" using reachable_clock[OF r(1)] by simp
  with e have hm: "currentHour s = 22 \<and> currentMinute s = 48" by presburger
  then have "dayRollover (speedMultiplier initial_config) s"
    by (simp add: speedMultiplier_initial dayRollover_def carriedHour_def Let_def)
  then show ?thesis using r hm by blast
qed

end
